theory Spec2Isabelle
  imports Main "HOL-Library.Monad_Syntax"
begin

section \<open>JavaScript values\<close>

text \<open>
  Every value that crosses a boundary of the extension (messages, response envelopes, the
  upstream JSON, cache payloads) is a JSON-like JavaScript value. Numbers are the safe
  integers, of magnitude below \<open>2 ^ 53\<close> (page counts, years, millisecond timestamps): the
  integers a JavaScript number carries exactly and prints as a plain decimal numeral. NaN,
  fractions and larger magnitudes are outside the model.
  A string is a list of code units below 256 (ASCII and Latin-1), on which the string
  built-ins used by the source are defined exactly.

  An object is the list of its property definitions in the order they were written; a
  later definition of a name overrides an earlier one, so an object literal
  \<^verbatim>\<open>{a: 1, ...x, b: 2}\<close> is the concatenation of its parts.
\<close>

datatype jsval =
    JUndefined
  | JNull
  | JBool bool
  | JNum int
  | JStr string
  | JArr "jsval list"
  | JObj "(string \<times> jsval) list"

text \<open>Truthiness, as read by \<^verbatim>\<open>if (v)\<close>, \<^verbatim>\<open>!v\<close>, \<^verbatim>\<open>a || b\<close> and \<^verbatim>\<open>c ? x : y\<close>.\<close>

fun js_truthy :: "jsval \<Rightarrow> bool" where
  "js_truthy JUndefined = False"
| "js_truthy JNull = False"
| "js_truthy (JBool b) = b"
| "js_truthy (JNum n) = (n \<noteq> 0)"
| "js_truthy (JStr s) = (s \<noteq> [])"
| "js_truthy (JArr xs) = True"
| "js_truthy (JObj fs) = True"

definition js_or :: "jsval \<Rightarrow> jsval \<Rightarrow> jsval" where
  "js_or a b = (if js_truthy a then a else b)"

text \<open>The value of property \<open>k\<close> among the property definitions \<open>fs\<close>.\<close>

definition js_get :: "(string \<times> jsval) list \<Rightarrow> string \<Rightarrow> jsval" where
  "js_get fs k = (case map_of (rev fs) k of None \<Rightarrow> JUndefined | Some v \<Rightarrow> v)"

text \<open>
  \<^verbatim>\<open>v.k\<close>: reading a property of \<^verbatim>\<open>undefined\<close> or \<^verbatim>\<open>null\<close> throws a TypeError
  (\<open>None\<close>); primitives and arrays have none of the property names the source reads.
\<close>

fun js_prop :: "jsval \<Rightarrow> string \<Rightarrow> jsval option" where
  "js_prop JUndefined k = None"
| "js_prop JNull k = None"
| "js_prop (JObj fs) k = Some (js_get fs k)"
| "js_prop v k = Some JUndefined"

text \<open>\<^verbatim>\<open>v?.k\<close>: optional chaining gives \<^verbatim>\<open>undefined\<close> instead of throwing.\<close>

definition js_prop_opt :: "jsval \<Rightarrow> string \<Rightarrow> jsval" where
  "js_prop_opt v k = (case js_prop v k of None \<Rightarrow> JUndefined | Some x \<Rightarrow> x)"

subsection \<open>Strings\<close>

definition digit_char :: "nat \<Rightarrow> char" where
  "digit_char d = char_of (48 + d)"

fun string_of_nat :: "nat \<Rightarrow> string" where
  "string_of_nat n =
     (if n < 10 then [digit_char n] else string_of_nat (n div 10) @ [digit_char (n mod 10)])"

declare string_of_nat.simps [simp del]

definition string_of_int :: "int \<Rightarrow> string" where
  "string_of_int i = (if i < 0 then CHR ''-'' # string_of_nat (nat (- i)) else string_of_nat (nat i))"

fun js_join :: "string \<Rightarrow> string list \<Rightarrow> string" where
  "js_join sep [] = []"
| "js_join sep [x] = x"
| "js_join sep (x # y # ys) = x @ sep @ js_join sep (y # ys)"

text \<open>
  String conversion, as done by a template literal and by \<^verbatim>\<open>Array.prototype.join\<close>
  (which prints \<^verbatim>\<open>undefined\<close> and \<^verbatim>\<open>null\<close> elements as the empty string). A number
  is printed as its decimal numeral, which is what JavaScript prints for every safe integer
  (the exponent form starts at \<open>10 ^ 21\<close>, outside the numbers of the model).
\<close>

fun js_to_string :: "jsval \<Rightarrow> string" where
  "js_to_string JUndefined = ''undefined''"
| "js_to_string JNull = ''null''"
| "js_to_string (JBool b) = (if b then ''true'' else ''false'')"
| "js_to_string (JNum n) = string_of_int n"
| "js_to_string (JStr s) = s"
| "js_to_string (JArr xs) =
     js_join '','' (map (\<lambda>x. if x = JUndefined \<or> x = JNull then [] else js_to_string x) xs)"
| "js_to_string (JObj fs) = ''[object Object]''"

definition array_join :: "string \<Rightarrow> jsval list \<Rightarrow> string" where
  "array_join sep xs =
     js_join sep (map (\<lambda>x. if x = JUndefined \<or> x = JNull then [] else js_to_string x) xs)"

text \<open>
  White space and line terminators removed by \<^verbatim>\<open>String.prototype.trim\<close>, among the code
  units below 256: TAB, LF, VT, FF, CR, SPACE and NO-BREAK SPACE.
\<close>

definition js_whitespace :: "char \<Rightarrow> bool" where
  "js_whitespace c = (c \<in> set [CHR 0x09, CHR 0x0A, CHR 0x0B, CHR 0x0C, CHR 0x0D, CHR 0x20, CHR 0xA0])"

definition trim :: "string \<Rightarrow> string" where
  "trim s = rev (dropWhile js_whitespace (rev (dropWhile js_whitespace s)))"

text \<open>
  \<^verbatim>\<open>String.prototype.toLowerCase\<close> on code units below 256: the letters A to Z and the
  Latin-1 capitals U+00C0 to U+00DE (without the multiplication sign U+00D7) move up by 32.
\<close>

definition lower_char :: "char \<Rightarrow> char" where
  "lower_char c =
     (let n = (of_char c :: nat)
      in if (65 \<le> n \<and> n \<le> 90) \<or> (192 \<le> n \<and> n \<le> 222 \<and> n \<noteq> 215) then char_of (n + 32) else c)"

definition toLowerCase :: "string \<Rightarrow> string" where
  "toLowerCase s = map lower_char s"

section \<open>The in-memory cache (scripts/background.js, CacheManager)\<close>

text \<open>
  \<^verbatim>\<open>CACHE_TTL\<close> is an object literal, so \<^verbatim>\<open>CACHE_TTL[type]\<close> finds the three own
  properties, numbers of milliseconds, and also every property inherited from
  \<^verbatim>\<open>Object.prototype\<close>: functions, and for \<^verbatim>\<open>__proto__\<close> the prototype object itself. All
  of these are truthy and none is a number.
\<close>

definition Object_prototype_names :: "string list" where
  "Object_prototype_names =
     [''constructor'', ''__defineGetter__'', ''__defineSetter__'', ''hasOwnProperty'',
      ''__lookupGetter__'', ''__lookupSetter__'', ''isPrototypeOf'', ''propertyIsEnumerable'',
      ''toString'', ''valueOf'', ''__proto__'', ''toLocaleString'']"

datatype ttl_value = Millis int | Inherited

text \<open>\<^verbatim>\<open>CACHE_TTL[type]\<close>; \<open>None\<close> is \<^verbatim>\<open>undefined\<close>.\<close>

definition CACHE_TTL :: "string \<Rightarrow> ttl_value option" where
  "CACHE_TTL type =
     (if type = ''searchResults'' then Some (Millis (5 * 60 * 1000))
      else if type = ''movieDetails'' then Some (Millis (15 * 60 * 1000))
      else if type = ''sessionState'' then Some (Millis (60 * 1000))
      else if type \<in> set Object_prototype_names then Some Inherited
      else None)"

text \<open>\<^verbatim>\<open>CACHE_TTL[type] || CACHE_TTL.searchResults\<close>\<close>

definition ttl_of :: "string \<Rightarrow> ttl_value" where
  "ttl_of type =
     (case CACHE_TTL type of
        None \<Rightarrow> Millis (5 * 60 * 1000)
      | Some (Millis t) \<Rightarrow> if t \<noteq> 0 then Millis t else Millis (5 * 60 * 1000)
      | Some Inherited \<Rightarrow> Inherited)"

text \<open>
  \<^verbatim>\<open>Date.now() + ttl\<close> is a number when \<^verbatim>\<open>ttl\<close> is one. With an inherited function or
  object it is a string, the digits of the time followed by the text of the function or
  object, and such a string converts to NaN.
\<close>

datatype expiry = At int | NotANumber

fun expiry_of :: "int \<Rightarrow> ttl_value \<Rightarrow> expiry" where
  "expiry_of now (Millis t) = At (now + t)"
| "expiry_of now Inherited = NotANumber"

text \<open>\<^verbatim>\<open>Date.now() > entry.expiresAt\<close>: a comparison with NaN is false.\<close>

fun expired :: "int \<Rightarrow> expiry \<Rightarrow> bool" where
  "expired now (At t) = (now > t)"
| "expired now NotANumber = False"

record cache_entry =
  data :: jsval
  expiresAt :: expiry

type_synonym cache = "string \<rightharpoonup> cache_entry"

definition generateKey :: "string \<Rightarrow> jsval list \<Rightarrow> string" where
  "generateKey type args = type @ '':'' @ array_join '':'' args"

text \<open>
  \<open>CacheManager_get now type args c\<close>: the method \<^verbatim>\<open>get\<close> when \<^verbatim>\<open>Date.now()\<close> reads
  \<open>now\<close>; it returns the method's result (\<^verbatim>\<open>null\<close> when there is no live entry) and
  the map it leaves behind.
\<close>

definition CacheManager_get :: "int \<Rightarrow> string \<Rightarrow> jsval list \<Rightarrow> cache \<Rightarrow> jsval \<times> cache" where
  "CacheManager_get now type args c =
     (let key = generateKey type args
      in case c key of
           None \<Rightarrow> (JNull, c)
         | Some entry \<Rightarrow>
             if expired now (expiresAt entry) then (JNull, c(key := None))
             else (data entry, c))"

definition CacheManager_set :: "int \<Rightarrow> string \<Rightarrow> jsval \<Rightarrow> jsval list \<Rightarrow> cache \<Rightarrow> cache" where
  "CacheManager_set now type d args c =
     (let key = generateKey type args;
          ttl = ttl_of type
      in c(key \<mapsto> \<lparr>data = d, expiresAt = expiry_of now ttl\<rparr>))"

subsection \<open>More string built-ins\<close>

fun js_spread :: "jsval \<Rightarrow> (string \<times> jsval) list" where
  "js_spread (JObj fs) = fs"
| "js_spread (JArr xs) = zip (map string_of_nat [0..<length xs]) xs"
| "js_spread (JStr s) = zip (map string_of_nat [0..<length s]) (map (\<lambda>c. JStr [c]) s)"
| "js_spread v = []"

definition startsWith :: "string \<Rightarrow> string \<Rightarrow> bool" where
  "startsWith s p = (take (length p) s = p)"

text \<open>\<^verbatim>\<open>s.split(sep)\<close> for a separator of one character: never the empty list.\<close>

fun split_char :: "char \<Rightarrow> string \<Rightarrow> string list" where
  "split_char sep [] = [[]]"
| "split_char sep (c # cs) =
     (if c = sep then [] # split_char sep cs
      else (case split_char sep cs of [] \<Rightarrow> [[c]] | x # xs \<Rightarrow> (c # x) # xs))"

text \<open>
  \<^verbatim>\<open>encodeURIComponent\<close>: letters, digits and \<^verbatim>\<open>- _ . ! ~ * ' ( )\<close> stay; every other
  code unit is percent-encoded as its UTF-8 bytes (one byte below 128, two bytes up to 255).
\<close>

definition hex_digit :: "nat \<Rightarrow> char" where
  "hex_digit d = (if d < 10 then char_of (48 + d) else char_of (55 + d))"

definition percent_byte :: "nat \<Rightarrow> string" where
  "percent_byte b = [CHR ''%'', hex_digit (b div 16), hex_digit (b mod 16)]"

definition uri_unreserved :: "char \<Rightarrow> bool" where
  "uri_unreserved c =
     (let n = (of_char c :: nat)
      in (65 \<le> n \<and> n \<le> 90) \<or> (97 \<le> n \<and> n \<le> 122) \<or> (48 \<le> n \<and> n \<le> 57)
         \<or> c \<in> set [CHR ''-'', CHR ''_'', CHR ''.'', CHR ''!'', CHR ''~'', CHR ''*'', CHR 0x27,
                      CHR ''('', CHR '')''])"

definition encode_char :: "char \<Rightarrow> string" where
  "encode_char c =
     (let n = (of_char c :: nat)
      in if uri_unreserved c then [c]
         else if n < 128 then percent_byte n
         else percent_byte (192 + n div 64) @ percent_byte (128 + n mod 64))"

definition encodeURIComponent :: "string \<Rightarrow> string" where
  "encodeURIComponent s = concat (map encode_char s)"

section \<open>Thrown errors\<close>

text \<open>
  A thrown error or rejected promise is a value: \<open>TypeError\<close> is the error the engine raises
  on a property read of \<^verbatim>\<open>undefined\<close> or \<^verbatim>\<open>null\<close> and on a call of a non-function;
  \<open>Failed m\<close> is any other error, with \<^verbatim>\<open>error.message = m\<close>. A computation that may
  throw returns \<open>js_error + 'a\<close>.
\<close>

datatype js_error = TypeError | Failed string

definition or_throw :: "'a option \<Rightarrow> js_error + 'a" where
  "or_throw x = (case x of None \<Rightarrow> Inl TypeError | Some v \<Rightarrow> Inr v)"

section \<open>The page-context agent (scripts/contentScript.js)\<close>

text \<open>
  What the agent reads from its page: \<^verbatim>\<open>document.cookie\<close>, the result of
  \<^verbatim>\<open>document.querySelector\<close> for a selector, \<^verbatim>\<open>window.location.pathname\<close>, and the
  outcome of \<^verbatim>\<open>fetchWithTimeout\<close> for a URL. The request headers only go into the request,
  whose outcome the page gives. \<open>type_error_message\<close> is the engine's text for a TypeError.
\<close>

record dom_element =
  alt :: jsval
  title :: jsval
  href :: "string option"

text \<open>
  A fetch either resolves with a status and the outcome of \<^verbatim>\<open>response.json()\<close>, or rejects
  (network failure, or the abort after \<^verbatim>\<open>CONFIG.request.timeout\<close>) with a message.
\<close>

datatype fetch_outcome = Response int "js_error + jsval" | NetworkFailure string

record page =
  cookie :: string
  querySelector :: "string \<Rightarrow> dom_element option"
  pathname :: string
  fetch :: "string \<Rightarrow> fetch_outcome"
  type_error_message :: string

definition error_message :: "page \<Rightarrow> js_error \<Rightarrow> string" where
  "error_message pg e = (case e of TypeError \<Rightarrow> type_error_message pg | Failed m \<Rightarrow> m)"

text \<open>\<^verbatim>\<open>response.ok\<close>\<close>

definition response_ok :: "int \<Rightarrow> bool" where
  "response_ok status = (200 \<le> status \<and> status \<le> 299)"

text \<open>\<^verbatim>\<open>CONFIG.authSelectors\<close>, in the order \<^verbatim>\<open>Object.entries\<close> lists them.\<close>

definition authSelectors :: "(string \<times> string) list" where
  \<open>authSelectors =
     [(''userAvatar'', ''img[alt*="avatar"], img[alt*="profile"], [class*="avatar"]''),
      (''userMenu'', ''[aria-label*="account"], [aria-label*="profile"], [class*="user-menu"]''),
      (''logoutButton'', ''button[aria-label*="logout"], a[href*="logout"]''),
      (''profileLink'', ''a[href*="/u/"], a[href*="/my-"]'')]\<close>

subsection \<open>Authentication detection\<close>

text \<open>\<^verbatim>\<open>const [name, value] = cookie.trim().split('=')\<close>; \<open>None\<close> is \<^verbatim>\<open>undefined\<close>.\<close>

definition cookie_pair :: "string \<Rightarrow> string \<times> string option" where
  "cookie_pair ck =
     (case split_char CHR ''='' (trim ck) of
        [] \<Rightarrow> ([], None)
      | [n] \<Rightarrow> (n, None)
      | n # v # rest \<Rightarrow> (n, Some v))"

fun cookie_loop :: "string list \<Rightarrow> jsval" where
  "cookie_loop [] = JNull"
| "cookie_loop (ck # cks) =
     (case cookie_pair ck of
        (name, v) \<Rightarrow>
          if name = ''auth_token'' \<and> v \<noteq> None \<and> v \<noteq> Some []
          then JObj [(''isLoggedIn'', JBool True), (''username'', JNull),
                     (''method'', JStr ''cookie''), (''indicator'', JStr ''auth_token'')]
          else cookie_loop cks)"

definition checkAuthFromCookie :: "page \<Rightarrow> jsval" where
  "checkAuthFromCookie pg = cookie_loop (split_char CHR '';'' (cookie pg))"

text \<open>
  \<^verbatim>\<open>href.match(/\/u\/([^\/]+)/)\<close>: the first capture group of the leftmost match, a
  longest run of characters other than \<^verbatim>\<open>/\<close> right after \<^verbatim>\<open>/u/\<close>.
\<close>

fun match_user :: "string \<Rightarrow> string option" where
  "match_user [] = None"
| "match_user (c # cs) =
     (if startsWith (c # cs) ''/u/'' \<and> takeWhile (\<lambda>x. x \<noteq> CHR ''/'') (drop 3 (c # cs)) \<noteq> []
      then Some (takeWhile (\<lambda>x. x \<noteq> CHR ''/'') (drop 3 (c # cs)))
      else match_user cs)"

definition dom_username :: "string \<Rightarrow> dom_element \<Rightarrow> jsval" where
  "dom_username key element =
     (if key = ''userAvatar'' then js_or (js_or (alt element) (title element)) JNull
      else if key = ''profileLink'' then
        (case href element of
           None \<Rightarrow> JNull
         | Some h \<Rightarrow>
             if h \<noteq> [] then (case match_user h of None \<Rightarrow> JNull | Some u \<Rightarrow> JStr u)
             else JNull)
      else JNull)"

fun dom_loop :: "page \<Rightarrow> (string \<times> string) list \<Rightarrow> jsval option" where
  "dom_loop pg [] = None"
| "dom_loop pg ((key, selector) # rest) =
     (case querySelector pg selector of
        None \<Rightarrow> dom_loop pg rest
      | Some element \<Rightarrow>
          Some (JObj [(''isLoggedIn'', JBool True), (''username'', dom_username key element),
                      (''method'', JStr ''dom''), (''indicator'', JStr key)]))"

definition checkAuthFromDOM :: "page \<Rightarrow> jsval" where
  "checkAuthFromDOM pg =
     (case dom_loop pg authSelectors of
        Some found \<Rightarrow> found
      | None \<Rightarrow>
          if pathname pg = ''/login'' \<or> pathname pg = ''/signup''
          then JObj [(''isLoggedIn'', JBool False), (''username'', JNull),
                     (''method'', JStr ''dom''), (''indicator'', JStr ''login_page'')]
          else JNull)"

text \<open>\<^verbatim>\<open>data.username || data.name || data.user?.username || null\<close>\<close>

definition api_username :: "jsval \<Rightarrow> jsval option" where
  "api_username d =
     do { u \<leftarrow> js_prop d ''username'';
          n \<leftarrow> js_prop d ''name'';
          usr \<leftarrow> js_prop d ''user'';
          Some (js_or (js_or (js_or u n) (js_prop_opt usr ''username'')) JNull) }"

text \<open>The \<^verbatim>\<open>catch\<close> of \<open>checkAuthFromAPI\<close> swallows every error and the function returns \<^verbatim>\<open>null\<close>.\<close>

definition checkAuthFromAPI :: "page \<Rightarrow> jsval" where
  "checkAuthFromAPI pg =
     (case fetch pg ''/api/me'' of
        NetworkFailure m \<Rightarrow> JNull
      | Response status body \<Rightarrow>
          if response_ok status then
            (case body of
               Inl e \<Rightarrow> JNull
             | Inr d \<Rightarrow>
                 (case api_username d of
                    None \<Rightarrow> JNull
                  | Some u \<Rightarrow>
                      JObj [(''isLoggedIn'', JBool True), (''username'', u),
                            (''method'', JStr ''api''), (''userData'', d)]))
          else if status = 401 \<or> status = 403 then
            JObj [(''isLoggedIn'', JBool False), (''username'', JNull),
                  (''method'', JStr ''api''), (''indicator'', JStr ''unauthorized'')]
          else JNull)"

definition checkAuth :: "page \<Rightarrow> jsval" where
  "checkAuth pg =
     (let cookieResult = checkAuthFromCookie pg
      in if cookieResult \<noteq> JNull then JObj ((''success'', JBool True) # js_spread cookieResult)
         else
           let domResult = checkAuthFromDOM pg
           in if domResult \<noteq> JNull then JObj ((''success'', JBool True) # js_spread domResult)
              else
                let apiResult = checkAuthFromAPI pg
                in if apiResult \<noteq> JNull then JObj ((''success'', JBool True) # js_spread apiResult)
                   else JObj [(''success'', JBool True), (''isLoggedIn'', JBool False),
                              (''username'', JNull), (''method'', JStr ''cookie''),
                              (''message'', JStr ''No auth_token cookie found. Please log in.'')])"

subsection \<open>Search\<close>

text \<open>
  \<open>normalizeMovieData\<close> throws a TypeError (\<open>None\<close>) when the item is \<^verbatim>\<open>null\<close> or
  \<^verbatim>\<open>undefined\<close>; on every other item all its property reads succeed.
\<close>

definition normalizeMovieData :: "jsval \<Rightarrow> jsval option" where
  "normalizeMovieData item =
     do { slug \<leftarrow> js_prop item ''slug'';
          name \<leftarrow> js_prop item ''name'';
          year \<leftarrow> js_prop item ''year'';
          rating \<leftarrow> js_prop item ''rating'';
          ratingCount \<leftarrow> js_prop item ''ratingCount'';
          image \<leftarrow> js_prop item ''image'';
          banner \<leftarrow> js_prop item ''banner'';
          summary \<leftarrow> js_prop item ''summary'';
          description \<leftarrow> js_prop item ''description'';
          is_show \<leftarrow> js_prop item ''is_show'';
          Some (JObj
            [(''id'', slug),
             (''title'', name),
             (''year'', year),
             (''rating'', js_or rating JNull),
             (''ratingCount'', js_or ratingCount (JNum 0)),
             (''poster'', image),
             (''banner'', banner),
             (''summary'', js_or (js_or summary description) JNull),
             (''type'', if js_truthy is_show then JStr ''series'' else JStr ''movie''),
             (''slug'', slug),
             (''url'', JStr (''/content/'' @ js_to_string slug))]) }"

text \<open>\<^verbatim>\<open>v.map(f)\<close>: a TypeError unless \<open>v\<close> is an array and \<open>f\<close> throws on none of its elements.\<close>

definition array_map :: "(jsval \<Rightarrow> jsval option) \<Rightarrow> jsval \<Rightarrow> jsval list option" where
  "array_map f v = (case v of JArr xs \<Rightarrow> those (map f xs) | _ \<Rightarrow> None)"

text \<open>The object \<open>searchViaAPI\<close> builds from the parsed body of a 2xx response.\<close>

definition search_success :: "string \<Rightarrow> jsval \<Rightarrow> jsval option" where
  "search_success endpoint d =
     do { dd \<leftarrow> js_prop d ''data'';
          mapped \<leftarrow> array_map normalizeMovieData (js_or dd (JArr []));
          total_pages \<leftarrow> js_prop d ''total_pages'';
          current_page \<leftarrow> js_prop d ''current_page'';
          next_page \<leftarrow> js_prop d ''next_page'';
          previous_page \<leftarrow> js_prop d ''previous_page'';
          count \<leftarrow> js_prop d ''count'';
          Some (JObj
            [(''success'', JBool True),
             (''method'', JStr ''api''),
             (''endpoint'', JStr endpoint),
             (''results'', JArr mapped),
             (''pagination'', JObj
                [(''totalPages'', js_or total_pages (JNum 1)),
                 (''currentPage'', js_or current_page (JNum 1)),
                 (''nextPage'', next_page),
                 (''previousPage'', previous_page),
                 (''count'', js_or count (JNum (int (length mapped))))])]) }"

text \<open>The body of the \<^verbatim>\<open>try\<close> block of \<open>searchViaAPI\<close>.\<close>

definition search_try :: "page \<Rightarrow> string \<Rightarrow> js_error + jsval" where
  "search_try pg endpoint =
     (case fetch pg endpoint of
        NetworkFailure m \<Rightarrow> Inl (Failed m)
      | Response status body \<Rightarrow>
          if response_ok status then
            (case body of
               Inl e \<Rightarrow> Inl e
             | Inr d \<Rightarrow> or_throw (search_success endpoint d))
          else if status = 401 \<or> status = 403 then
            Inr (JObj [(''success'', JBool False), (''error'', JStr ''UNAUTHORIZED''),
                       (''message'', JStr ''Session expired. Please log in again.'')])
          else
            Inr (JObj [(''success'', JBool False), (''error'', JStr ''API_ERROR''),
                       (''message'', JStr (''Search failed with status '' @ string_of_int status))]))"

definition searchViaAPI :: "page \<Rightarrow> jsval \<Rightarrow> jsval \<Rightarrow> jsval" where
  "searchViaAPI pg q pageno =
     (let endpoint = ''/api/search'' @ ''?q='' @ encodeURIComponent (js_to_string q)
                       @ ''&page='' @ js_to_string pageno
      in case search_try pg endpoint of
           Inr r \<Rightarrow> r
         | Inl e \<Rightarrow>
             JObj [(''success'', JBool False), (''error'', JStr ''NETWORK_ERROR''),
                   (''message'', js_or (JStr (error_message pg e)) (JStr ''Network error occurred''))])"

definition search :: "page \<Rightarrow> jsval \<Rightarrow> jsval \<Rightarrow> jsval" where
  "search pg q pageno = searchViaAPI pg q pageno"

subsection \<open>Details\<close>

definition normalizeReview :: "jsval \<Rightarrow> jsval option" where
  "normalizeReview review =
     do { r_id \<leftarrow> js_prop review ''id'';
          Some (JObj
            [(''id'', js_or r_id (js_prop_opt review ''_id'')),
             (''author'', js_or (js_or (js_or (js_prop_opt review ''author'') (js_prop_opt review ''user''))
                                   (js_prop_opt review ''username'')) (JStr ''Anonymous'')),
             (''rating'', js_or (js_or (js_prop_opt review ''rating'') (js_prop_opt review ''score'')) JNull),
             (''text'', js_or (js_or (js_or (js_or (js_prop_opt review ''text'') (js_prop_opt review ''content''))
                                   (js_prop_opt review ''review'')) (js_prop_opt review ''body'')) (JStr [])),
             (''date'', js_or (js_or (js_or (js_prop_opt review ''date'') (js_prop_opt review ''createdAt''))
                                   (js_prop_opt review ''timestamp'')) JNull),
             (''helpful'', js_or (js_or (js_prop_opt review ''helpful'') (js_prop_opt review ''likes'')) (JNum 0))]) }"

text \<open>\<^verbatim>\<open>v?.[0]\<close>\<close>

fun js_first :: "jsval \<Rightarrow> jsval" where
  "js_first (JArr xs) = (case xs of [] \<Rightarrow> JUndefined | x # rest \<Rightarrow> x)"
| "js_first (JStr s) = (case s of [] \<Rightarrow> JUndefined | c # rest \<Rightarrow> JStr [c])"
| "js_first (JObj fs) = js_get fs ''0''"
| "js_first v = JUndefined"

definition normalizeMovieDetails :: "jsval \<Rightarrow> jsval option" where
  "normalizeMovieDetails d =
     do { m \<leftarrow> js_prop d ''movie'';
          let movie = js_or (js_or (js_or m (js_prop_opt d ''content'')) (js_prop_opt d ''data'')) d;
          base \<leftarrow> normalizeMovieData movie;
          reviews \<leftarrow> array_map normalizeReview
                      (js_or (js_or (js_prop_opt movie ''reviews'') (js_prop_opt movie ''userReviews'')) (JArr []));
          Some (JObj (js_spread base @
            [(''genres'', js_or (js_or (js_prop_opt movie ''genres'') (js_prop_opt movie ''genre'')) (JArr [])),
             (''duration'', js_or (js_or (js_prop_opt movie ''duration'') (js_prop_opt movie ''runtime'')) JNull),
             (''director'', js_or (js_or (js_prop_opt movie ''director'')
                                        (js_first (js_prop_opt movie ''directors''))) JNull),
             (''cast'', js_or (js_or (js_prop_opt movie ''cast'') (js_prop_opt movie ''actors'')) (JArr [])),
             (''reviews'', JArr reviews),
             (''userRating'', js_or (js_or (js_prop_opt movie ''userRating'') (js_prop_opt movie ''myRating'')) JNull),
             (''trailer'', js_or (js_or (js_prop_opt movie ''trailer'') (js_prop_opt movie ''trailerUrl'')) JNull),
             (''streamingPlatforms'', js_or (js_or (js_or (js_prop_opt movie ''platforms'')
                                        (js_prop_opt movie ''streaming'')) (js_prop_opt movie ''watchOn'')) (JArr []))])) }"

text \<open>
  \<open>getDetailsViaAPI\<close>: its \<^verbatim>\<open>catch\<close> swallows every error, and every path that does not
  return inside the \<^verbatim>\<open>try\<close> ends in the \<^verbatim>\<open>FETCH_FAILED\<close> envelope.
\<close>

definition getDetailsViaAPI :: "page \<Rightarrow> jsval \<Rightarrow> jsval" where
  "getDetailsViaAPI pg slug =
     (let endpoint = ''/api/content'' @ ''/'' @ encodeURIComponent (js_to_string slug);
          fetch_failed = JObj [(''success'', JBool False), (''error'', JStr ''FETCH_FAILED''),
                               (''message'', JStr ''Failed to fetch movie details'')]
      in case fetch pg endpoint of
           NetworkFailure m \<Rightarrow> fetch_failed
         | Response status body \<Rightarrow>
             if response_ok status then
               (case body of
                  Inl e \<Rightarrow> fetch_failed
                | Inr d \<Rightarrow>
                    (case normalizeMovieDetails d of
                       None \<Rightarrow> fetch_failed
                     | Some details \<Rightarrow>
                         JObj [(''success'', JBool True), (''method'', JStr ''api''), (''data'', details)]))
             else if status = 401 \<or> status = 403 then
               JObj [(''success'', JBool False), (''error'', JStr ''UNAUTHORIZED''),
                     (''message'', JStr ''Session expired. Please log in again.'')]
             else if status = 404 then
               JObj [(''success'', JBool False), (''error'', JStr ''NOT_FOUND''),
                     (''message'', JStr ''Movie not found'')]
             else fetch_failed)"

definition getDetails :: "page \<Rightarrow> jsval \<Rightarrow> jsval" where
  "getDetails pg slug =
     (if \<not> js_truthy slug then
        JObj [(''success'', JBool False), (''error'', JStr ''INVALID_SLUG''),
              (''message'', JStr ''Movie slug is required'')]
      else getDetailsViaAPI pg slug)"

subsection \<open>The agent's message listener\<close>

text \<open>
  The reply the listener sends for a message object (given as its properties). None of
  \<open>checkAuth\<close>, \<open>search\<close> and \<open>getDetails\<close> throws, so the listener's own \<^verbatim>\<open>catch\<close>
  (\<^verbatim>\<open>CONTENT_SCRIPT_ERROR\<close>) is never entered.
\<close>

definition contentScript_onMessage :: "page \<Rightarrow> (string \<times> jsval) list \<Rightarrow> jsval" where
  "contentScript_onMessage pg message =
     (let type = js_get message ''type''
      in if type = JStr ''PING'' then JObj [(''pong'', JBool True)]
         else if type = JStr ''CHECK_AUTH'' then checkAuth pg
         else if type = JStr ''SEARCH'' then
           search pg (js_get message ''query'') (js_or (js_get message ''page'') (JNum 1))
         else if type = JStr ''GET_DETAILS'' then
           getDetails pg (js_or (js_get message ''slug'') (js_get message ''movieId''))
         else JObj [(''success'', JBool False), (''error'', JStr ''UNKNOWN_MESSAGE_TYPE''),
                    (''message'', JStr (''Unknown message type: '' @ js_to_string type))])"

section \<open>The background coordinator (scripts/background.js)\<close>

text \<open>
  What the coordinator gets from the browser during one request: the open tabs, the outcome
  of the \<^verbatim>\<open>PING\<close> probe to a tab, whether \<^verbatim>\<open>chrome.scripting.executeScript\<close> succeeds
  there, the outcome of \<^verbatim>\<open>chrome.tabs.sendMessage\<close> for the forwarded message, and the
  time that passes while \<open>sendToContentScript\<close> is awaited. Values cross the message
  channel unchanged.
\<close>

record tab =
  tab_id :: nat
  tab_url :: "string option"

record browser =
  tabs :: "tab list"
  ping :: "nat \<Rightarrow> js_error + jsval"
  executeScript :: "nat \<Rightarrow> bool"
  reply :: "nat \<Rightarrow> jsval \<Rightarrow> js_error + jsval"
  elapsed :: nat

text \<open>The record kept under the key \<^verbatim>\<open>pendingSearch\<close> of \<^verbatim>\<open>chrome.storage.local\<close>.\<close>

record pending =
  query :: string
  timestamp :: int

text \<open>
  The coordinator's state and its trace: the cache map, the storage slot, the reading of
  \<^verbatim>\<open>Date.now()\<close>, the messages sent to tabs (probes included), the tabs a script
  injection was attempted in, and the popup windows created.
\<close>

record world =
  cache :: cache
  pendingSearch :: "pending option"
  clock :: int
  sent :: "(nat \<times> jsval) list"
  injected :: "nat list"
  windows :: "string list"

definition MOCTALE_ORIGINS :: "string list" where
  "MOCTALE_ORIGINS = [''https://www.moctale.in'', ''https://moctale.in'']"

definition findMoctaleTab :: "browser \<Rightarrow> tab option" where
  "findMoctaleTab br =
     find (\<lambda>t. case tab_url t of
                 None \<Rightarrow> False
               | Some u \<Rightarrow> u \<noteq> [] \<and> list_ex (\<lambda>origin. startsWith u origin) MOCTALE_ORIGINS)
          (tabs br)"

definition ensureContentScriptInjected :: "browser \<Rightarrow> nat \<Rightarrow> world \<Rightarrow> bool \<times> world" where
  "ensureContentScriptInjected br tabId w =
     (let w1 = w\<lparr>sent := sent w @ [(tabId, JObj [(''type'', JStr ''PING'')])]\<rparr>
      in case ping br tabId of
           Inr response \<Rightarrow> (js_prop_opt response ''pong'' = JBool True, w1)
         | Inl e \<Rightarrow>
             (let w2 = w1\<lparr>injected := injected w1 @ [tabId]\<rparr>
              in if executeScript br tabId then (True, w2) else (False, w2)))"

text \<open>The steps of \<open>sendToContentScript\<close>, before the clock is moved.\<close>

definition send_steps :: "browser \<Rightarrow> jsval \<Rightarrow> world \<Rightarrow> jsval \<times> world" where
  "send_steps br message w =
     (case findMoctaleTab br of
        None \<Rightarrow>
          (JObj [(''success'', JBool False), (''error'', JStr ''NO_MOCTALE_TAB''),
                 (''message'', JStr ''Please open moctale.in in a browser tab first'')], w)
      | Some moctaleTab \<Rightarrow>
          (case ensureContentScriptInjected br (tab_id moctaleTab) w of
             (injected_ok, w1) \<Rightarrow>
               if \<not> injected_ok then
                 (JObj [(''success'', JBool False), (''error'', JStr ''INJECTION_FAILED''),
                        (''message'', JStr ''Failed to connect to Moctale tab'')], w1)
               else
                 (let w2 = w1\<lparr>sent := sent w1 @ [(tab_id moctaleTab, message)]\<rparr>
                  in case reply br (tab_id moctaleTab) message of
                       Inr response \<Rightarrow> (response, w2)
                     | Inl e \<Rightarrow>
                         (JObj [(''success'', JBool False), (''error'', JStr ''COMMUNICATION_ERROR''),
                                (''message'', JStr ''Failed to communicate with Moctale tab'')], w2))))"

definition sendToContentScript :: "browser \<Rightarrow> jsval \<Rightarrow> world \<Rightarrow> jsval \<times> world" where
  "sendToContentScript br message w =
     (case send_steps br message w of
        (response, w') \<Rightarrow> (response, w'\<lparr>clock := clock w' + int (elapsed br)\<rparr>))"

text \<open>
  The tail shared by the three handlers: \<^verbatim>\<open>if (response.success) cacheManager.set(...)\<close>
  and \<^verbatim>\<open>return response\<close>. Reading \<^verbatim>\<open>success\<close> of \<^verbatim>\<open>undefined\<close> or \<^verbatim>\<open>null\<close> throws.
\<close>

definition cache_response :: "string \<Rightarrow> jsval list \<Rightarrow> jsval \<times> world \<Rightarrow> (js_error + jsval) \<times> world" where
  "cache_response type args rw =
     (case rw of
        (response, w) \<Rightarrow>
          (case js_prop response ''success'' of
             None \<Rightarrow> (Inl TypeError, w)
           | Some ok \<Rightarrow>
               if js_truthy ok
               then (Inr response, w\<lparr>cache := CacheManager_set (clock w) type response args (cache w)\<rparr>)
               else (Inr response, w)))"

definition handleCheckSession :: "browser \<Rightarrow> world \<Rightarrow> (js_error + jsval) \<times> world" where
  "handleCheckSession br w =
     (case CacheManager_get (clock w) ''sessionState'' [JStr ''status''] (cache w) of
        (cachedSession, c) \<Rightarrow>
          if cachedSession \<noteq> JNull then (Inr cachedSession, w\<lparr>cache := c\<rparr>)
          else cache_response ''sessionState'' [JStr ''status'']
                 (sendToContentScript br (JObj [(''type'', JStr ''CHECK_AUTH'')]) (w\<lparr>cache := c\<rparr>)))"

text \<open>
  \<open>handleSearchMovies\<close> gets \<^verbatim>\<open>data.query\<close> of the request, any value; \<^verbatim>\<open>query.trim()\<close>
  throws on a truthy value that is not a string.
\<close>

definition handleSearchMovies :: "browser \<Rightarrow> jsval \<Rightarrow> world \<Rightarrow> (js_error + jsval) \<times> world" where
  "handleSearchMovies br q w =
     (let invalid = JObj [(''success'', JBool False), (''error'', JStr ''INVALID_QUERY''),
                          (''message'', JStr ''Please enter a search term'')]
      in if \<not> js_truthy q then (Inr invalid, w)
         else
           (case q of
              JStr s \<Rightarrow>
                if length (trim s) = 0 then (Inr invalid, w)
                else
                  (let normalizedQuery = toLowerCase (trim s)
                   in case CacheManager_get (clock w) ''searchResults'' [JStr normalizedQuery] (cache w) of
                        (cachedResults, c) \<Rightarrow>
                          if cachedResults \<noteq> JNull
                          then (Inr (JObj (js_spread cachedResults @ [(''cached'', JBool True)])),
                                w\<lparr>cache := c\<rparr>)
                          else cache_response ''searchResults'' [JStr normalizedQuery]
                                 (sendToContentScript br
                                    (JObj [(''type'', JStr ''SEARCH''), (''query'', JStr normalizedQuery)])
                                    (w\<lparr>cache := c\<rparr>)))
            | _ \<Rightarrow> (Inl TypeError, w)))"

definition handleGetMovieDetails :: "browser \<Rightarrow> jsval \<Rightarrow> world \<Rightarrow> (js_error + jsval) \<times> world" where
  "handleGetMovieDetails br movieId w =
     (if \<not> js_truthy movieId then
        (Inr (JObj [(''success'', JBool False), (''error'', JStr ''INVALID_ID''),
                    (''message'', JStr ''Movie ID is required'')]), w)
      else
        (case CacheManager_get (clock w) ''movieDetails'' [movieId] (cache w) of
           (cachedDetails, c) \<Rightarrow>
             if cachedDetails \<noteq> JNull
             then (Inr (JObj (js_spread cachedDetails @ [(''cached'', JBool True)])), w\<lparr>cache := c\<rparr>)
             else cache_response ''movieDetails'' [movieId]
                    (sendToContentScript br
                       (JObj [(''type'', JStr ''GET_DETAILS''), (''movieId'', movieId)])
                       (w\<lparr>cache := c\<rparr>))))"

subsection \<open>The pending search\<close>

definition handleGetPendingSearch :: "world \<Rightarrow> jsval \<times> world" where
  "handleGetPendingSearch w =
     (case pendingSearch w of
        None \<Rightarrow> (JObj [(''success'', JBool False)], w)
      | Some p \<Rightarrow>
          (let age = clock w - timestamp p
           in if age < 5 * 60 * 1000
              then (JObj [(''success'', JBool True), (''query'', JStr (query p))], w)
              else (JObj [(''success'', JBool False)], w)))"

definition handleClearPendingSearch :: "world \<Rightarrow> jsval \<times> world" where
  "handleClearPendingSearch w = (JObj [(''success'', JBool True)], w\<lparr>pendingSearch := None\<rparr>)"

subsection \<open>The context menu\<close>

definition CONTEXT_MENU_ID :: string where
  "CONTEXT_MENU_ID = ''moctale-search-selection''"

text \<open>The \<^verbatim>\<open>info\<close> argument of the click listener; \<open>None\<close> is a missing \<^verbatim>\<open>selectionText\<close>.\<close>

record click_info =
  menuItemId :: string
  selectionText :: "string option"

definition contextMenus_onClicked :: "click_info \<Rightarrow> world \<Rightarrow> world" where
  "contextMenus_onClicked info w =
     (case selectionText info of
        None \<Rightarrow> w
      | Some selection \<Rightarrow>
          if menuItemId info = CONTEXT_MENU_ID \<and> selection \<noteq> [] then
            (let selectedText = trim selection
             in if selectedText \<noteq> [] then
                  w\<lparr>pendingSearch := Some \<lparr>query = selectedText, timestamp = clock w\<rparr>,
                     windows := windows w @ [''popup/popup.html'']\<rparr>
                else w)
          else w)"

section \<open>Notions used in the statements\<close>

text \<open>
  \<open>only_purged now key c0 c\<close>: the map \<open>c\<close> is \<open>c0\<close>, or \<open>c0\<close> without the entry under
  \<open>key\<close>, which had expired before \<open>now\<close>.
\<close>

definition only_purged :: "int \<Rightarrow> string \<Rightarrow> cache \<Rightarrow> cache \<Rightarrow> bool" where
  "only_purged now key c0 c =
     (c = c0 \<or> (case c0 key of None \<Rightarrow> False | Some e \<Rightarrow> expired now (expiresAt e) \<and> c = c0(key := None)))"

text \<open>
  A browser in which every tab of \<open>ts\<close> runs the agent on the page \<open>pg\<close>: the probe and the
  forwarded message are answered by the agent's listener, and \<open>ms\<close> milliseconds pass.
\<close>

definition agent_browser :: "page \<Rightarrow> tab list \<Rightarrow> nat \<Rightarrow> browser" where
  "agent_browser pg ts ms =
     \<lparr>tabs = ts,
      ping = (\<lambda>tabId. Inr (contentScript_onMessage pg [(''type'', JStr ''PING'')])),
      executeScript = (\<lambda>tabId. True),
      reply = (\<lambda>tabId message. Inr (contentScript_onMessage pg (js_spread message))),
      elapsed = ms\<rparr>"

section \<open>Example inputs\<close>

text \<open>The coordinator right after start-up, when the clock reads \<open>now\<close>.\<close>

definition startup_world :: "int \<Rightarrow> world" where
  "startup_world now =
     \<lparr>cache = Map.empty, pendingSearch = None, clock = now, sent = [], injected = [], windows = []\<rparr>"

text \<open>A browser with no tab on the target site.\<close>

definition no_tab_browser :: browser where
  "no_tab_browser =
     \<lparr>tabs = [\<lparr>tab_id = 3, tab_url = Some ''https://example.org/''\<rparr>],
      ping = (\<lambda>tabId. Inl (Failed ''Could not establish connection'')),
      executeScript = (\<lambda>tabId. False),
      reply = (\<lambda>tabId message. Inl (Failed ''Could not establish connection'')),
      elapsed = 5\<rparr>"

definition moctale_tabs :: "tab list" where
  "moctale_tabs = [\<lparr>tab_id = 3, tab_url = Some ''https://example.org/''\<rparr>,
                   \<lparr>tab_id = 7, tab_url = Some ''https://www.moctale.in/explore''\<rparr>]"

text \<open>A browser whose target tab answers the probe and replies \<open>r\<close> to every message.\<close>

definition replying_browser :: "jsval \<Rightarrow> browser" where
  "replying_browser r =
     \<lparr>tabs = moctale_tabs,
      ping = (\<lambda>tabId. Inr (JObj [(''pong'', JBool True)])),
      executeScript = (\<lambda>tabId. True),
      reply = (\<lambda>tabId message. Inr r),
      elapsed = 40\<rparr>"

definition NO_MOCTALE_TAB :: jsval where
  "NO_MOCTALE_TAB =
     JObj [(''success'', JBool False), (''error'', JStr ''NO_MOCTALE_TAB''),
           (''message'', JStr ''Please open moctale.in in a browser tab first'')]"

definition alice_session :: jsval where
  "alice_session =
     JObj [(''success'', JBool True), (''isLoggedIn'', JBool True), (''username'', JStr ''alice'')]"

text \<open>A success envelope of the agent for the details of the item \<^verbatim>\<open>42\<close>.\<close>

definition details_42 :: jsval where
  "details_42 =
     JObj [(''success'', JBool True), (''method'', JStr ''api''),
           (''data'', JObj [(''id'', JStr ''42''), (''title'', JStr ''Forty-Two'')])]"

text \<open>A cache whose only entry, for the query \<^verbatim>\<open>dune\<close>, expired at 900, read at 1000.\<close>

definition stale_world :: world where
  "stale_world =
     (startup_world 1000)
       \<lparr>cache := [''searchResults:dune'' \<mapsto> \<lparr>data = JObj [(''success'', JBool True)], expiresAt = At 900\<rparr>]\<rparr>"

definition dune_upstream :: jsval where
  "dune_upstream =
     JObj [(''data'', JArr [JObj [(''slug'', JStr ''dune-2021''), (''name'', JStr ''Dune''),
                                  (''year'', JNum 2021), (''is_show'', JBool False),
                                  (''image'', JStr ''x.jpg'')]]),
           (''total_pages'', JNum 3), (''current_page'', JNum 1)]"

definition dune_item :: jsval where
  "dune_item =
     JObj [(''id'', JStr ''dune-2021''), (''title'', JStr ''Dune''), (''year'', JNum 2021),
           (''rating'', JNull), (''ratingCount'', JNum 0), (''poster'', JStr ''x.jpg''),
           (''banner'', JUndefined), (''summary'', JNull), (''type'', JStr ''movie''),
           (''slug'', JStr ''dune-2021''), (''url'', JStr ''/content/dune-2021'')]"

text \<open>A logged-in page whose search endpoint answers the query \<^verbatim>\<open>dune\<close>.\<close>

definition dune_page :: page where
  "dune_page =
     \<lparr>cookie = ''theme=dark; auth_token=abc123'',
      querySelector = (\<lambda>selector. None),
      pathname = ''/explore'',
      fetch = (\<lambda>u. if u = ''/api/search?q=dune&page=1'' then Response 200 (Inr dune_upstream)
                     else Response 404 (Inl (Failed ''Unexpected token''))),
      type_error_message = ''Cannot read properties of null''\<rparr>"

text \<open>A page with no auth cookie, no logged-in marker, and an unreachable profile endpoint.\<close>

definition logged_out_page :: page where
  "logged_out_page =
     \<lparr>cookie = ''theme=dark; auth_token='',
      querySelector = (\<lambda>selector. None),
      pathname = ''/explore'',
      fetch = (\<lambda>u. NetworkFailure ''Failed to fetch''),
      type_error_message = ''Cannot read properties of null''\<rparr>"

section \<open>Properties of the cache\<close>

lemma ttl_of_Millis_pos: "ttl_of C = Millis d \<Longrightarrow> 0 < d"
  by (auto simp add: ttl_of_def CACHE_TTL_def split: if_splits)

lemma ttl_of_category: "C \<notin> set Object_prototype_names \<Longrightarrow> \<exists>d. ttl_of C = Millis d \<and> 0 < d"
  by (simp add: ttl_of_def CACHE_TTL_def)

lemma ttl_of_inherited: "C \<in> set Object_prototype_names \<Longrightarrow> ttl_of C = Inherited"
  by (auto simp add: ttl_of_def CACHE_TTL_def Object_prototype_names_def)

text \<open>
  Under a type name inherited from \<^verbatim>\<open>Object.prototype\<close> an entry is stored with an expiry
  that is not a number, and every later read returns it: it never expires. No call of the
  coordinator uses such a name; its three categories are \<^verbatim>\<open>sessionState\<close>,
  \<^verbatim>\<open>searchResults\<close> and \<^verbatim>\<open>movieDetails\<close>.
\<close>

lemma inherited_name_never_expires:
  "C \<in> set Object_prototype_names \<Longrightarrow>
   CacheManager_get t C K (CacheManager_set t0 C v K c) = (v, CacheManager_set t0 C v K c)"
  by (simp add: CacheManager_get_def CacheManager_set_def Let_def ttl_of_inherited)

text \<open>
  Claim C3. For every type name \<open>C\<close>, key tuple \<open>K\<close> and value \<open>v\<close>: a \<^verbatim>\<open>set\<close> at clock
  reading \<open>t0\<close> followed immediately by a \<^verbatim>\<open>get\<close> (the clock still reads \<open>t0\<close>) returns \<open>v\<close>.
  For every category, that is every type name \<open>C\<close> that is not a property name inherited from
  \<^verbatim>\<open>Object.prototype\<close> (the three categories of the coordinator, and every other name, which
  falls back to the default), the time to live is a positive number \<open>d\<close> of milliseconds,
  and: any \<^verbatim>\<open>get\<close> up to \<open>t0 + d\<close> returns \<open>v\<close>; a \<^verbatim>\<open>get\<close> once the clock has passed
  \<open>t0 + d\<close> (the test is \<^verbatim>\<open>Date.now() > entry.expiresAt\<close>) returns \<^verbatim>\<open>null\<close> and removes the
  entry; every later \<^verbatim>\<open>get\<close>, whatever the clock reads, returns \<^verbatim>\<open>null\<close> again and
  changes nothing: the purge is idempotent.
\<close>

theorem cache_set_get_then_expire:
  "fst (CacheManager_get t0 C K (CacheManager_set t0 C v K c)) = v
   \<and> (C \<notin> set Object_prototype_names \<longrightarrow>
       (\<exists>d. ttl_of C = Millis d \<and> 0 < d
         \<and> (\<forall>t. t \<le> t0 + d \<longrightarrow>
              CacheManager_get t C K (CacheManager_set t0 C v K c) = (v, CacheManager_set t0 C v K c))
         \<and> (\<forall>t1 t2. t0 + d < t1 \<longrightarrow>
              fst (CacheManager_get t1 C K (CacheManager_set t0 C v K c)) = JNull
            \<and> snd (CacheManager_get t1 C K (CacheManager_set t0 C v K c)) (generateKey C K) = None
            \<and> CacheManager_get t2 C K (snd (CacheManager_get t1 C K (CacheManager_set t0 C v K c)))
                = (JNull, snd (CacheManager_get t1 C K (CacheManager_set t0 C v K c))))))"
proof (intro conjI impI)
  show "fst (CacheManager_get t0 C K (CacheManager_set t0 C v K c)) = v"
  proof (cases "ttl_of C")
    case (Millis d)
    with ttl_of_Millis_pos [of C d] show ?thesis
      by (simp add: CacheManager_get_def CacheManager_set_def Let_def)
  next
    case Inherited
    then show ?thesis
      by (simp add: CacheManager_get_def CacheManager_set_def Let_def)
  qed
next
  assume "C \<notin> set Object_prototype_names"
  then obtain d where d: "ttl_of C = Millis d" "0 < d"
    using ttl_of_category by blast
  have "(\<forall>t. t \<le> t0 + d \<longrightarrow>
              CacheManager_get t C K (CacheManager_set t0 C v K c) = (v, CacheManager_set t0 C v K c))
         \<and> (\<forall>t1 t2. t0 + d < t1 \<longrightarrow>
              fst (CacheManager_get t1 C K (CacheManager_set t0 C v K c)) = JNull
            \<and> snd (CacheManager_get t1 C K (CacheManager_set t0 C v K c)) (generateKey C K) = None
            \<and> CacheManager_get t2 C K (snd (CacheManager_get t1 C K (CacheManager_set t0 C v K c)))
                = (JNull, snd (CacheManager_get t1 C K (CacheManager_set t0 C v K c))))"
    using d by (simp add: CacheManager_get_def CacheManager_set_def Let_def)
  with d show "\<exists>d. ttl_of C = Millis d \<and> 0 < d
         \<and> (\<forall>t. t \<le> t0 + d \<longrightarrow>
              CacheManager_get t C K (CacheManager_set t0 C v K c) = (v, CacheManager_set t0 C v K c))
         \<and> (\<forall>t1 t2. t0 + d < t1 \<longrightarrow>
              fst (CacheManager_get t1 C K (CacheManager_set t0 C v K c)) = JNull
            \<and> snd (CacheManager_get t1 C K (CacheManager_set t0 C v K c)) (generateKey C K) = None
            \<and> CacheManager_get t2 C K (snd (CacheManager_get t1 C K (CacheManager_set t0 C v K c)))
                = (JNull, snd (CacheManager_get t1 C K (CacheManager_set t0 C v K c))))"
    by blast
qed

text \<open>
  In each of the three categories a value stored at 1000 is read back at 1000 and at the last
  millisecond of its time to live (one, five and fifteen minutes), and the read one
  millisecond later returns \<^verbatim>\<open>null\<close>.
\<close>

theorem cache_set_get_then_expire_witness:
  "fst (CacheManager_get 1000 ''searchResults'' [JStr ''dune'']
          (CacheManager_set 1000 ''searchResults'' alice_session [JStr ''dune''] Map.empty))
     = alice_session
   \<and> fst (CacheManager_get 301000 ''searchResults'' [JStr ''dune'']
          (CacheManager_set 1000 ''searchResults'' alice_session [JStr ''dune''] Map.empty))
     = alice_session
   \<and> fst (CacheManager_get 301001 ''searchResults'' [JStr ''dune'']
          (CacheManager_set 1000 ''searchResults'' alice_session [JStr ''dune''] Map.empty))
     = JNull
   \<and> fst (CacheManager_get 61000 ''sessionState'' [JStr ''status'']
          (CacheManager_set 1000 ''sessionState'' alice_session [JStr ''status''] Map.empty))
     = alice_session
   \<and> fst (CacheManager_get 61001 ''sessionState'' [JStr ''status'']
          (CacheManager_set 1000 ''sessionState'' alice_session [JStr ''status''] Map.empty))
     = JNull
   \<and> fst (CacheManager_get 901000 ''movieDetails'' [JStr ''dune-2021'']
          (CacheManager_set 1000 ''movieDetails'' alice_session [JStr ''dune-2021''] Map.empty))
     = alice_session
   \<and> fst (CacheManager_get 901001 ''movieDetails'' [JStr ''dune-2021'']
          (CacheManager_set 1000 ''movieDetails'' alice_session [JStr ''dune-2021''] Map.empty))
     = JNull"
proof -
  have n: "''searchResults'' \<notin> set Object_prototype_names"
    "''sessionState'' \<notin> set Object_prototype_names"
    "''movieDetails'' \<notin> set Object_prototype_names"
    by (simp_all add: Object_prototype_names_def)
  have t: "ttl_of ''searchResults'' = Millis 300000" "ttl_of ''sessionState'' = Millis 60000"
    "ttl_of ''movieDetails'' = Millis 900000"
    by (simp_all add: ttl_of_def CACHE_TTL_def)
  from cache_set_get_then_expire
    [of 1000 "''searchResults''" "[JStr ''dune'']" alice_session Map.empty]
   cache_set_get_then_expire
    [of 1000 "''sessionState''" "[JStr ''status'']" alice_session Map.empty]
   cache_set_get_then_expire
    [of 1000 "''movieDetails''" "[JStr ''dune-2021'']" alice_session Map.empty]
  show ?thesis by (simp add: n t)
qed

subsection \<open>Key construction\<close>

lemma array_join_strings: "array_join sep (map JStr xs) = js_join sep xs"
  by (simp add: array_join_def comp_def)

lemma js_join_Cons: "xs \<noteq> [] \<Longrightarrow> js_join sep (x # xs) = x @ sep @ js_join sep xs"
  by (cases xs) simp_all

lemma colon_free_split:
  "CHR '':'' \<notin> set x \<Longrightarrow> CHR '':'' \<notin> set y \<Longrightarrow> x @ CHR '':'' # r = y @ CHR '':'' # s
   \<Longrightarrow> x = y \<and> r = s"
proof (induction x arbitrary: y)
  case Nil
  then show ?case by (cases y) auto
next
  case (Cons a x)
  then show ?case by (cases y) auto
qed

lemma js_join_colon_inj:
  "length xs = length ys \<Longrightarrow> list_all (\<lambda>x. CHR '':'' \<notin> set x) xs
   \<Longrightarrow> list_all (\<lambda>y. CHR '':'' \<notin> set y) ys
   \<Longrightarrow> js_join '':'' xs = js_join '':'' ys \<Longrightarrow> xs = ys"
proof (induction xs ys rule: list_induct2)
  case Nil
  then show ?case by simp
next
  case (Cons x xs y ys)
  show ?case
  proof (cases "xs = []")
    case True
    with Cons show ?thesis by simp
  next
    case False
    with Cons.hyps have ne: "ys \<noteq> []" by auto
    from Cons.prems False ne
    have eq: "x @ CHR '':'' # js_join '':'' xs = y @ CHR '':'' # js_join '':'' ys"
      by (simp add: js_join_Cons)
    from Cons.prems have "CHR '':'' \<notin> set x" "CHR '':'' \<notin> set y" by simp_all
    from colon_free_split [OF this eq] have "x = y" "js_join '':'' xs = js_join '':'' ys"
      by simp_all
    with Cons show ?thesis by simp
  qed
qed

lemma string_of_int_42: "string_of_int 42 = ''42''"
  by code_simp

text \<open>
  Claim C6, as stated, fails. Arguments enter the key through their string conversion, so the
  movie id \<^verbatim>\<open>42\<close>, a number, and the movie id \<^verbatim>\<open>"42"\<close>, a string, are distinct one-argument
  tuples with the same key \<^verbatim>\<open>movieDetails:42\<close>: after the details of \<^verbatim>\<open>"42"\<close> were fetched
  at 1000, a request for \<^verbatim>\<open>42\<close> at 2000, with no tab open, is served that entry. And since
  the separator is not escaped, the distinct tuples \<^verbatim>\<open>('a:b')\<close> and \<^verbatim>\<open>('a', 'b')\<close> build
  the same key.
\<close>

theorem generateKey_collision:
  "generateKey ''movieDetails'' [JNum 42] = generateKey ''movieDetails'' [JStr ''42'']
   \<and> [JNum 42] \<noteq> [JStr ''42'']
   \<and> handleGetMovieDetails no_tab_browser (JNum 42)
        ((snd (handleGetMovieDetails (replying_browser details_42) (JStr ''42'') (startup_world 1000)))
           \<lparr>clock := 2000\<rparr>)
      = (Inr (JObj (js_spread details_42 @ [(''cached'', JBool True)])),
         (snd (handleGetMovieDetails (replying_browser details_42) (JStr ''42'') (startup_world 1000)))
           \<lparr>clock := 2000\<rparr>)
   \<and> generateKey ''searchResults'' [JStr ''a:b''] = generateKey ''searchResults'' [JStr ''a'', JStr ''b'']
   \<and> [JStr ''a:b''] \<noteq> [JStr ''a'', JStr ''b'']"
  by (simp add: generateKey_def array_join_def string_of_int_42 handleGetMovieDetails_def
      CacheManager_get_def CacheManager_set_def startup_world_def sendToContentScript_def
      send_steps_def findMoctaleTab_def replying_browser_def moctale_tabs_def MOCTALE_ORIGINS_def
      startsWith_def ensureContentScriptInjected_def js_prop_opt_def js_get_def cache_response_def
      details_42_def ttl_of_def CACHE_TTL_def Let_def)

text \<open>
  Claim C6, amended. Within a category, key construction is injective over string arguments:
  two tuples of one string each (the form of the session key, of every normalized search
  query, and of a movie id sent as a string; the string may contain the separator) build
  different keys when the strings differ, and so do two string tuples of equal length whose
  components do not contain the separator \<^verbatim>\<open>:\<close>.
\<close>

theorem generateKey_injective:
  "(generateKey C [JStr a] = generateKey C [JStr b] \<longrightarrow> a = b)
   \<and> (length xs = length ys \<and> list_all (\<lambda>x. CHR '':'' \<notin> set x) xs
        \<and> list_all (\<lambda>y. CHR '':'' \<notin> set y) ys
        \<and> generateKey C (map JStr xs) = generateKey C (map JStr ys) \<longrightarrow> xs = ys)"
proof (intro conjI impI)
  assume "generateKey C [JStr a] = generateKey C [JStr b]"
  then show "a = b" by (simp add: generateKey_def array_join_def)
next
  assume h: "length xs = length ys \<and> list_all (\<lambda>x. CHR '':'' \<notin> set x) xs
        \<and> list_all (\<lambda>y. CHR '':'' \<notin> set y) ys
        \<and> generateKey C (map JStr xs) = generateKey C (map JStr ys)"
  then have "js_join '':'' xs = js_join '':'' ys"
    by (simp add: generateKey_def array_join_strings)
  with h show "xs = ys" by (blast intro: js_join_colon_inj)
qed

theorem generateKey_injective_witness:
  "generateKey ''searchResults'' [JStr ''dune''] \<noteq> generateKey ''searchResults'' [JStr ''dune 2'']
   \<and> generateKey ''movieDetails'' (map JStr [''a'', ''b'']) \<noteq> generateKey ''movieDetails'' (map JStr [''a'', ''c''])"
  using generateKey_injective [of "''searchResults''" "''dune''" "''dune 2''" "[]" "[]"]
    generateKey_injective [of "''movieDetails''" "''x''" "''x''" "[''a'', ''b'']" "[''a'', ''c'']"]
  by auto

section \<open>Properties of the request router\<close>

subsection \<open>Auxiliary facts\<close>

lemma trim_nonempty: "trim s \<noteq> [] \<Longrightarrow> s \<noteq> []"
  by (auto simp add: trim_def)

lemma trim_whitespace: "list_all js_whitespace s \<Longrightarrow> trim s = []"
proof -
  assume "list_all js_whitespace s"
  then have d: "dropWhile js_whitespace s = []"
    by (induction s) simp_all
  show ?thesis unfolding trim_def d by simp
qed

lemma toLowerCase_Nil: "toLowerCase s = [] \<longleftrightarrow> s = []"
  by (simp add: toLowerCase_def)

lemma get_only_purged:
  "CacheManager_get now T args c0 = (v, c) \<Longrightarrow> only_purged now (generateKey T args) c0 c"
  by (auto simp add: CacheManager_get_def only_purged_def Let_def split: option.splits if_splits)

lemma send_keeps_state:
  "sendToContentScript br m w = (r, w') \<Longrightarrow>
     cache w' = cache w \<and> pendingSearch w' = pendingSearch w \<and> windows w' = windows w
     \<and> clock w' = clock w + int (elapsed br)"
  by (auto simp add: sendToContentScript_def send_steps_def ensureContentScriptInjected_def Let_def
      split: option.splits sum.splits if_splits prod.splits)

lemma cache_response_failure:
  "js_prop r ''success'' = Some ok \<Longrightarrow> \<not> js_truthy ok \<Longrightarrow> cache_response T args (r, w) = (Inr r, w)"
  by (simp add: cache_response_def)

lemma cache_response_success:
  "js_prop r ''success'' = Some ok \<Longrightarrow> js_truthy ok \<Longrightarrow>
   cache_response T args (r, w) =
     (Inr r, w\<lparr>cache := (cache w)(generateKey T args \<mapsto> \<lparr>data = r, expiresAt = expiry_of (clock w) (ttl_of T)\<rparr>)\<rparr>)"
  by (simp add: cache_response_def CacheManager_set_def)

lemma no_tab_send:
  "sendToContentScript no_tab_browser m w = (NO_MOCTALE_TAB, w\<lparr>clock := clock w + 5\<rparr>)"
  by (simp add: sendToContentScript_def send_steps_def findMoctaleTab_def no_tab_browser_def
      MOCTALE_ORIGINS_def startsWith_def NO_MOCTALE_TAB_def)

lemma find_moctale_tabs:
  "findMoctaleTab (agent_browser pg moctale_tabs ms)
     = Some \<lparr>tab_id = 7, tab_url = Some ''https://www.moctale.in/explore''\<rparr>"
  by (simp add: findMoctaleTab_def agent_browser_def moctale_tabs_def MOCTALE_ORIGINS_def startsWith_def)

text \<open>With the agent in the target tab, one probe and one message are sent and the agent's reply comes back.\<close>

lemma agent_send:
  assumes "findMoctaleTab (agent_browser pg ts ms) = Some tb"
  shows "sendToContentScript (agent_browser pg ts ms) (JObj m) w =
     (contentScript_onMessage pg m,
      w\<lparr>sent := sent w @ [(tab_id tb, JObj [(''type'', JStr ''PING'')]), (tab_id tb, JObj m)],
        clock := clock w + int ms\<rparr>)"
proof -
  have p: "ping (agent_browser pg ts ms) (tab_id tb) = Inr (JObj [(''pong'', JBool True)])"
    by (simp add: agent_browser_def contentScript_onMessage_def js_get_def)
  have r: "reply (agent_browser pg ts ms) (tab_id tb) (JObj m) = Inr (contentScript_onMessage pg m)"
    by (simp add: agent_browser_def)
  have e: "elapsed (agent_browser pg ts ms) = ms"
    by (simp add: agent_browser_def)
  show ?thesis
    by (simp add: sendToContentScript_def send_steps_def assms ensureContentScriptInjected_def
        p r e js_prop_opt_def js_get_def Let_def)
qed

subsection \<open>Cache hits and misses of the handlers\<close>

lemma checkSession_hit:
  assumes "cache w (generateKey ''sessionState'' [JStr ''status'']) = Some e"
    and "\<not> expired (clock w) (expiresAt e)" and "data e \<noteq> JNull"
  shows "handleCheckSession br w = (Inr (data e), w)"
  using assms by (simp add: handleCheckSession_def CacheManager_get_def)

lemma checkSession_miss_success:
  assumes "CacheManager_get (clock w) ''sessionState'' [JStr ''status''] (cache w) = (JNull, c)"
    and "sendToContentScript br (JObj [(''type'', JStr ''CHECK_AUTH'')]) (w\<lparr>cache := c\<rparr>) = (r, w')"
    and "js_prop r ''success'' = Some ok" and "js_truthy ok"
  shows "handleCheckSession br w =
     (Inr r, w'\<lparr>cache := (cache w')(generateKey ''sessionState'' [JStr ''status'']
                    \<mapsto> \<lparr>data = r, expiresAt = At (clock w' + 60 * 1000)\<rparr>)\<rparr>)"
  using assms
  by (simp add: handleCheckSession_def cache_response_success ttl_of_def CACHE_TTL_def)

lemma search_hit:
  assumes "trim s \<noteq> []"
    and "cache w (generateKey ''searchResults'' [JStr (toLowerCase (trim s))]) = Some e"
    and "\<not> expired (clock w) (expiresAt e)" and "data e \<noteq> JNull"
  shows "handleSearchMovies br (JStr s) w
           = (Inr (JObj (js_spread (data e) @ [(''cached'', JBool True)])), w)"
  using assms trim_nonempty [of s]
  by (simp add: handleSearchMovies_def Let_def CacheManager_get_def)

lemma search_miss_success:
  assumes "trim s \<noteq> []"
    and "CacheManager_get (clock w) ''searchResults'' [JStr (toLowerCase (trim s))] (cache w) = (JNull, c)"
    and "sendToContentScript br
            (JObj [(''type'', JStr ''SEARCH''), (''query'', JStr (toLowerCase (trim s)))]) (w\<lparr>cache := c\<rparr>) = (r, w')"
    and "js_prop r ''success'' = Some ok" and "js_truthy ok"
  shows "handleSearchMovies br (JStr s) w =
     (Inr r, w'\<lparr>cache := (cache w')(generateKey ''searchResults'' [JStr (toLowerCase (trim s))]
                    \<mapsto> \<lparr>data = r, expiresAt = At (clock w' + 5 * 60 * 1000)\<rparr>)\<rparr>)"
  using assms trim_nonempty [of s]
  by (simp add: handleSearchMovies_def Let_def cache_response_success ttl_of_def CACHE_TTL_def)

lemma details_hit:
  assumes "js_truthy movieId"
    and "cache w (generateKey ''movieDetails'' [movieId]) = Some e"
    and "\<not> expired (clock w) (expiresAt e)" and "data e \<noteq> JNull"
  shows "handleGetMovieDetails br movieId w
           = (Inr (JObj (js_spread (data e) @ [(''cached'', JBool True)])), w)"
  using assms by (simp add: handleGetMovieDetails_def CacheManager_get_def)

lemma cached_annotation:
  "js_prop (JObj (js_spread v @ [(''cached'', JBool True)])) ''cached'' = Some (JBool True)"
  by (simp add: js_get_def)

subsection \<open>Failures are not cached\<close>

text \<open>
  The locator's two failures and a broken message channel each come back from
  \<open>sendToContentScript\<close> as an envelope whose \<^verbatim>\<open>success\<close> is \<^verbatim>\<open>false\<close>.
\<close>

lemma locator_failure_envelopes:
  "findMoctaleTab br = None \<Longrightarrow> fst (sendToContentScript br m w) = NO_MOCTALE_TAB"
  "findMoctaleTab br = Some tb \<Longrightarrow> \<not> fst (ensureContentScriptInjected br (tab_id tb) w) \<Longrightarrow>
     fst (sendToContentScript br m w) =
       JObj [(''success'', JBool False), (''error'', JStr ''INJECTION_FAILED''),
             (''message'', JStr ''Failed to connect to Moctale tab'')]"
  "findMoctaleTab br = Some tb \<Longrightarrow> fst (ensureContentScriptInjected br (tab_id tb) w) \<Longrightarrow>
     reply br (tab_id tb) m = Inl e \<Longrightarrow>
     fst (sendToContentScript br m w) =
       JObj [(''success'', JBool False), (''error'', JStr ''COMMUNICATION_ERROR''),
             (''message'', JStr ''Failed to communicate with Moctale tab'')]"
  by (auto simp add: sendToContentScript_def send_steps_def NO_MOCTALE_TAB_def Let_def
      split: prod.splits)

text \<open>
  Claim C1, as stated, fails. The claim says a failing operation leaves every cache entry as
  it was. Here the cache holds an expired entry for the query \<^verbatim>\<open>dune\<close> and no tab is open
  on the target site: the search returns the locator's failure envelope, and the entry is gone,
  removed by the lookup that came first.
\<close>

theorem failure_purges_expired_entry:
  "cache stale_world ''searchResults:dune''
     = Some \<lparr>data = JObj [(''success'', JBool True)], expiresAt = At 900\<rparr>
   \<and> fst (handleSearchMovies no_tab_browser (JStr ''dune'') stale_world) = Inr NO_MOCTALE_TAB
   \<and> cache (snd (handleSearchMovies no_tab_browser (JStr ''dune'') stale_world)) ''searchResults:dune''
     = None"
  by (simp add: handleSearchMovies_def Let_def trim_def js_whitespace_def toLowerCase_def lower_char_def
      CacheManager_get_def generateKey_def array_join_def startup_world_def stale_world_def no_tab_send
      cache_response_def NO_MOCTALE_TAB_def js_get_def)

text \<open>
  Claim C1, amended. For each of \<open>handleCheckSession\<close>, \<open>handleSearchMovies\<close> and
  \<open>handleGetMovieDetails\<close>: when the lookup misses and \<open>sendToContentScript\<close> comes back with
  an envelope \<open>r\<close> whose \<^verbatim>\<open>success\<close> is falsy (the locator's \<^verbatim>\<open>NO_MOCTALE_TAB\<close> or
  \<^verbatim>\<open>INJECTION_FAILED\<close>, \<^verbatim>\<open>COMMUNICATION_ERROR\<close>, or the agent's own failure envelope),
  the handler returns \<open>r\<close> unchanged and calls no \<^verbatim>\<open>set\<close>: the cache is as the lookup left it,
  which is the cache before the request except that an entry under the request's own key
  that had expired is removed. Entries under every other key are as they were.
\<close>

theorem failure_not_cached:
  assumes fail: "js_prop r ''success'' = Some ok" "\<not> js_truthy ok"
  shows
   "(CacheManager_get (clock w) ''sessionState'' [JStr ''status''] (cache w) = (JNull, c)
       \<and> sendToContentScript br (JObj [(''type'', JStr ''CHECK_AUTH'')]) (w\<lparr>cache := c\<rparr>) = (r, w')
     \<longrightarrow> handleCheckSession br w = (Inr r, w')
         \<and> only_purged (clock w) (generateKey ''sessionState'' [JStr ''status'']) (cache w) (cache w'))
  \<and> (trim s \<noteq> []
       \<and> CacheManager_get (clock w) ''searchResults'' [JStr (toLowerCase (trim s))] (cache w) = (JNull, c)
       \<and> sendToContentScript br
            (JObj [(''type'', JStr ''SEARCH''), (''query'', JStr (toLowerCase (trim s)))]) (w\<lparr>cache := c\<rparr>) = (r, w')
     \<longrightarrow> handleSearchMovies br (JStr s) w = (Inr r, w')
         \<and> only_purged (clock w) (generateKey ''searchResults'' [JStr (toLowerCase (trim s))]) (cache w) (cache w'))
  \<and> (js_truthy movieId
       \<and> CacheManager_get (clock w) ''movieDetails'' [movieId] (cache w) = (JNull, c)
       \<and> sendToContentScript br
            (JObj [(''type'', JStr ''GET_DETAILS''), (''movieId'', movieId)]) (w\<lparr>cache := c\<rparr>) = (r, w')
     \<longrightarrow> handleGetMovieDetails br movieId w = (Inr r, w')
         \<and> only_purged (clock w) (generateKey ''movieDetails'' [movieId]) (cache w) (cache w'))"
proof (intro conjI impI)
  assume h: "CacheManager_get (clock w) ''sessionState'' [JStr ''status''] (cache w) = (JNull, c)
       \<and> sendToContentScript br (JObj [(''type'', JStr ''CHECK_AUTH'')]) (w\<lparr>cache := c\<rparr>) = (r, w')"
  then show "handleCheckSession br w = (Inr r, w')"
    by (simp add: handleCheckSession_def cache_response_failure [OF fail])
  from h send_keeps_state [of br _ "w\<lparr>cache := c\<rparr>" r w'] have "cache w' = c" by auto
  with h get_only_purged
  show "only_purged (clock w) (generateKey ''sessionState'' [JStr ''status'']) (cache w) (cache w')"
    by blast
next
  assume h: "trim s \<noteq> []
       \<and> CacheManager_get (clock w) ''searchResults'' [JStr (toLowerCase (trim s))] (cache w) = (JNull, c)
       \<and> sendToContentScript br
            (JObj [(''type'', JStr ''SEARCH''), (''query'', JStr (toLowerCase (trim s)))]) (w\<lparr>cache := c\<rparr>) = (r, w')"
  then have "s \<noteq> []" by (auto simp add: trim_def)
  with h show "handleSearchMovies br (JStr s) w = (Inr r, w')"
    by (simp add: handleSearchMovies_def Let_def cache_response_failure [OF fail])
  from h send_keeps_state [of br _ "w\<lparr>cache := c\<rparr>" r w'] have "cache w' = c" by auto
  with h get_only_purged
  show "only_purged (clock w) (generateKey ''searchResults'' [JStr (toLowerCase (trim s))]) (cache w) (cache w')"
    by blast
next
  assume h: "js_truthy movieId
       \<and> CacheManager_get (clock w) ''movieDetails'' [movieId] (cache w) = (JNull, c)
       \<and> sendToContentScript br
            (JObj [(''type'', JStr ''GET_DETAILS''), (''movieId'', movieId)]) (w\<lparr>cache := c\<rparr>) = (r, w')"
  then show "handleGetMovieDetails br movieId w = (Inr r, w')"
    by (simp add: handleGetMovieDetails_def cache_response_failure [OF fail])
  from h send_keeps_state [of br _ "w\<lparr>cache := c\<rparr>" r w'] have "cache w' = c" by auto
  with h get_only_purged
  show "only_purged (clock w) (generateKey ''movieDetails'' [movieId]) (cache w) (cache w')"
    by blast
qed

text \<open>
  The amended claim at a concrete input: with no tab on the target site and an empty cache,
  each of the three operations returns \<^verbatim>\<open>NO_MOCTALE_TAB\<close> and only the clock has moved.
\<close>

theorem failure_not_cached_witness:
  "handleCheckSession no_tab_browser (startup_world 1000) = (Inr NO_MOCTALE_TAB, startup_world 1005)
   \<and> handleSearchMovies no_tab_browser (JStr '' Dune '') (startup_world 1000)
       = (Inr NO_MOCTALE_TAB, startup_world 1005)
   \<and> handleGetMovieDetails no_tab_browser (JStr ''dune-2021'') (startup_world 1000)
       = (Inr NO_MOCTALE_TAB, startup_world 1005)"
proof -
  have f1: "js_prop NO_MOCTALE_TAB ''success'' = Some (JBool False)"
    by (simp add: NO_MOCTALE_TAB_def js_get_def)
  have f2: "\<not> js_truthy (JBool False)" by simp
  have t: "trim '' Dune '' = ''Dune''" by (simp add: trim_def js_whitespace_def)
  from failure_not_cached [OF f1 f2, of "startup_world 1000" Map.empty no_tab_browser
      "startup_world 1005" "'' Dune ''" "JStr ''dune-2021''"]
  show ?thesis
    by (simp add: t no_tab_send CacheManager_get_def startup_world_def)
qed

subsection \<open>Cache hits\<close>

text \<open>
  Claim C2 at its failing input. The agent answers \<^verbatim>\<open>CHECK_AUTH\<close> with
  \<^verbatim>\<open>{success: true, isLoggedIn: true, username: "alice"}\<close>; the first \<open>handleCheckSession\<close>
  caches it until 61040. A second call at 31040, within the 60 seconds, sends nothing to any
  tab and returns the cached envelope itself: its \<^verbatim>\<open>cached\<close> property is \<^verbatim>\<open>undefined\<close>,
  where \<open>handleSearchMovies\<close> and \<open>handleGetMovieDetails\<close> answer a hit with
  \<^verbatim>\<open>{...cached, cached: true}\<close>.
\<close>

theorem checkSession_hit_not_annotated:
  "handleCheckSession (replying_browser alice_session) (startup_world 1000)
     = (Inr alice_session,
        \<lparr>cache = [''sessionState:status'' \<mapsto> \<lparr>data = alice_session, expiresAt = At 61040\<rparr>],
         pendingSearch = None, clock = 1040,
         sent = [(7, JObj [(''type'', JStr ''PING'')]), (7, JObj [(''type'', JStr ''CHECK_AUTH'')])],
         injected = [], windows = []\<rparr>)
   \<and> handleCheckSession no_tab_browser
        \<lparr>cache = [''sessionState:status'' \<mapsto> \<lparr>data = alice_session, expiresAt = At 61040\<rparr>],
         pendingSearch = None, clock = 31040,
         sent = [(7, JObj [(''type'', JStr ''PING'')]), (7, JObj [(''type'', JStr ''CHECK_AUTH'')])],
         injected = [], windows = []\<rparr>
     = (Inr alice_session,
        \<lparr>cache = [''sessionState:status'' \<mapsto> \<lparr>data = alice_session, expiresAt = At 61040\<rparr>],
         pendingSearch = None, clock = 31040,
         sent = [(7, JObj [(''type'', JStr ''PING'')]), (7, JObj [(''type'', JStr ''CHECK_AUTH'')])],
         injected = [], windows = []\<rparr>)
   \<and> js_prop alice_session ''cached'' = Some JUndefined"
  by (simp add: handleCheckSession_def CacheManager_get_def CacheManager_set_def generateKey_def
      array_join_def startup_world_def sendToContentScript_def send_steps_def findMoctaleTab_def
      replying_browser_def moctale_tabs_def MOCTALE_ORIGINS_def startsWith_def
      ensureContentScriptInjected_def js_prop_opt_def js_get_def cache_response_def
      alice_session_def ttl_of_def CACHE_TTL_def Let_def)

subsection \<open>Search queries\<close>

text \<open>
  Claim C4. For every query that is empty or consists of white space only, \<open>handleSearchMovies\<close>
  returns the \<^verbatim>\<open>INVALID_QUERY\<close> envelope and leaves the whole state as it was: nothing is
  sent to any tab, no script is injected, and the cache map is unchanged.
\<close>

theorem blank_query_rejected:
  "list_all js_whitespace s \<Longrightarrow>
   handleSearchMovies br (JStr s) w =
     (Inr (JObj [(''success'', JBool False), (''error'', JStr ''INVALID_QUERY''),
                 (''message'', JStr ''Please enter a search term'')]), w)"
  by (simp add: handleSearchMovies_def trim_whitespace Let_def)

theorem blank_query_rejected_witness:
  "handleSearchMovies (replying_browser alice_session) (JStr ''   '') (startup_world 1000) =
     (Inr (JObj [(''success'', JBool False), (''error'', JStr ''INVALID_QUERY''),
                 (''message'', JStr ''Please enter a search term'')]), startup_world 1000)
   \<and> handleSearchMovies (replying_browser alice_session) (JStr []) (startup_world 1000) =
     (Inr (JObj [(''success'', JBool False), (''error'', JStr ''INVALID_QUERY''),
                 (''message'', JStr ''Please enter a search term'')]), startup_world 1000)"
  using blank_query_rejected [of "''   ''" "replying_browser alice_session" "startup_world 1000"]
    blank_query_rejected [of "[]" "replying_browser alice_session" "startup_world 1000"]
  by (simp add: js_whitespace_def)

text \<open>
  Claim C5. Let \<open>a\<close> and \<open>b\<close> be queries that are equal after trimming and lowercasing, \<open>a\<close>
  not blank. When the search for \<open>a\<close> misses the cache and the agent answers with a success
  envelope \<open>r\<close>, the handler returns \<open>r\<close> and stores it under the key built from the
  normalized \<open>b\<close>; a search for \<open>b\<close> at any clock reading \<open>t\<close> up to the entry's expiry, in
  whatever browser \<open>br2\<close>, returns \<open>r\<close> with \<^verbatim>\<open>cached: true\<close> and leaves the state, the log of
  sent messages included, untouched.
\<close>

theorem equal_normalized_queries_share_entry:
  assumes norm: "toLowerCase (trim a) = toLowerCase (trim b)" and ne: "trim a \<noteq> []"
    and miss: "CacheManager_get (clock w) ''searchResults'' [JStr (toLowerCase (trim a))] (cache w) = (JNull, c)"
    and sent: "sendToContentScript br
            (JObj [(''type'', JStr ''SEARCH''), (''query'', JStr (toLowerCase (trim a)))]) (w\<lparr>cache := c\<rparr>) = (r, w')"
    and ok: "js_prop r ''success'' = Some ok" "js_truthy ok"
    and fresh: "t \<le> clock w' + 5 * 60 * 1000"
  shows "fst (handleSearchMovies br (JStr a) w) = Inr r
     \<and> cache (snd (handleSearchMovies br (JStr a) w)) (generateKey ''searchResults'' [JStr (toLowerCase (trim b))])
         = Some \<lparr>data = r, expiresAt = At (clock w' + 5 * 60 * 1000)\<rparr>
     \<and> handleSearchMovies br2 (JStr b) ((snd (handleSearchMovies br (JStr a) w))\<lparr>clock := t\<rparr>)
         = (Inr (JObj (js_spread r @ [(''cached'', JBool True)])),
            (snd (handleSearchMovies br (JStr a) w))\<lparr>clock := t\<rparr>)"
proof -
  let ?k = "generateKey ''searchResults'' [JStr (toLowerCase (trim a))]"
  let ?e = "\<lparr>data = r, expiresAt = At (clock w' + 5 * 60 * 1000)\<rparr>"
  let ?w1 = "w'\<lparr>cache := (cache w')(?k \<mapsto> ?e)\<rparr>"
  have first: "handleSearchMovies br (JStr a) w = (Inr r, ?w1)"
    by (rule search_miss_success [OF ne miss sent ok])
  from ne norm have neb: "trim b \<noteq> []"
    using toLowerCase_Nil [of "trim a"] toLowerCase_Nil [of "trim b"] by simp
  from ok have rn: "r \<noteq> JNull" by auto
  have second: "handleSearchMovies br2 (JStr b) (?w1\<lparr>clock := t\<rparr>)
      = (Inr (JObj (js_spread (data ?e) @ [(''cached'', JBool True)])), ?w1\<lparr>clock := t\<rparr>)"
    by (rule search_hit [OF neb]) (use norm fresh rn in simp_all)
  from first second norm show ?thesis by simp
qed

text \<open>
  The claim's example: \<^verbatim>\<open>"Dune"\<close> is searched at 1000 and answered by the agent;
  \<^verbatim>\<open>"  dune  "\<close>, searched at 200000 with no tab open, is served from that entry.
\<close>

theorem equal_normalized_queries_share_entry_witness:
  "handleSearchMovies no_tab_browser (JStr ''  dune  '')
      ((snd (handleSearchMovies (replying_browser alice_session) (JStr ''Dune'') (startup_world 1000)))\<lparr>clock := 200000\<rparr>)
    = (Inr (JObj (js_spread alice_session @ [(''cached'', JBool True)])),
       (snd (handleSearchMovies (replying_browser alice_session) (JStr ''Dune'') (startup_world 1000)))\<lparr>clock := 200000\<rparr>)"
proof -
  have t1: "trim ''Dune'' = ''Dune''" and t2: "trim ''  dune  '' = ''dune''"
    by (simp_all add: trim_def js_whitespace_def)
  have l1: "toLowerCase ''Dune'' = ''dune''" and l2: "toLowerCase ''dune'' = ''dune''"
    by code_simp+
  let ?w' = "(startup_world 1000)\<lparr>sent := [(7, JObj [(''type'', JStr ''PING'')]),
      (7, JObj [(''type'', JStr ''SEARCH''), (''query'', JStr ''dune'')])], clock := 1040\<rparr>"
  have s: "sendToContentScript (replying_browser alice_session)
            (JObj [(''type'', JStr ''SEARCH''), (''query'', JStr (toLowerCase (trim ''Dune'')))])
            ((startup_world 1000)\<lparr>cache := Map.empty\<rparr>) = (alice_session, ?w')"
    by (simp add: t1 l1 sendToContentScript_def send_steps_def findMoctaleTab_def replying_browser_def
        moctale_tabs_def MOCTALE_ORIGINS_def startsWith_def ensureContentScriptInjected_def
        js_prop_opt_def js_get_def startup_world_def Let_def)
  have m: "CacheManager_get (clock (startup_world 1000)) ''searchResults'' [JStr (toLowerCase (trim ''Dune''))]
             (cache (startup_world 1000)) = (JNull, Map.empty)"
    by (simp add: CacheManager_get_def startup_world_def)
  have o: "js_prop alice_session ''success'' = Some (JBool True)" "js_truthy (JBool True)"
    by (simp_all add: alice_session_def js_get_def)
  have n: "toLowerCase (trim ''Dune'') = toLowerCase (trim ''  dune  '')" "trim ''Dune'' \<noteq> []"
    by (simp_all add: t1 t2 l1 l2)
  have f: "(200000::int) \<le> clock ?w' + 5 * 60 * 1000" by simp
  from equal_normalized_queries_share_entry [OF n m s o f, of no_tab_browser]
  show ?thesis by simp
qed

section \<open>Properties of the pending search\<close>

text \<open>
  Claim C8. \<open>handleGetPendingSearch\<close> returns the stored query when the record is younger
  than 5 minutes; it returns \<^verbatim>\<open>{success: false}\<close> when the slot is empty or the record is
  5 minutes old or older; in both cases the state is unchanged. After
  \<open>handleClearPendingSearch\<close> it returns \<^verbatim>\<open>{success: false}\<close> whatever the clock reads. And
  a query written by the context-menu listener, read back less than 5 minutes after the
  write, comes back as written (the trimmed selection).
\<close>

theorem pending_search_read_if_fresh:
  "(pendingSearch w = Some p \<and> clock w - timestamp p < 5 * 60 * 1000
      \<longrightarrow> handleGetPendingSearch w = (JObj [(''success'', JBool True), (''query'', JStr (query p))], w))
   \<and> (pendingSearch w = None \<or> (pendingSearch w = Some p \<and> clock w - timestamp p \<ge> 5 * 60 * 1000)
      \<longrightarrow> handleGetPendingSearch w = (JObj [(''success'', JBool False)], w))
   \<and> (\<forall>t. handleGetPendingSearch ((snd (handleClearPendingSearch w))\<lparr>clock := t\<rparr>)
          = (JObj [(''success'', JBool False)], (snd (handleClearPendingSearch w))\<lparr>clock := t\<rparr>))
   \<and> (menuItemId info = CONTEXT_MENU_ID \<and> selectionText info = Some s \<and> trim s \<noteq> []
        \<and> t - clock w < 5 * 60 * 1000
      \<longrightarrow> handleGetPendingSearch ((contextMenus_onClicked info w)\<lparr>clock := t\<rparr>)
          = (JObj [(''success'', JBool True), (''query'', JStr (trim s))],
             (contextMenus_onClicked info w)\<lparr>clock := t\<rparr>))"
  using trim_nonempty [of s]
  by (auto simp add: handleGetPendingSearch_def handleClearPendingSearch_def
      contextMenus_onClicked_def Let_def)

theorem pending_search_read_if_fresh_witness:
  "handleGetPendingSearch
      ((contextMenus_onClicked \<lparr>menuItemId = ''moctale-search-selection'', selectionText = Some '' Dune ''\<rparr>
          (startup_world 1000))\<lparr>clock := 200000\<rparr>)
     = (JObj [(''success'', JBool True), (''query'', JStr ''Dune'')],
        (contextMenus_onClicked \<lparr>menuItemId = ''moctale-search-selection'', selectionText = Some '' Dune ''\<rparr>
          (startup_world 1000))\<lparr>clock := 200000\<rparr>)
   \<and> handleGetPendingSearch
        ((startup_world 400000)\<lparr>pendingSearch := Some \<lparr>query = ''Dune'', timestamp = 100000\<rparr>\<rparr>)
     = (JObj [(''success'', JBool False)],
        (startup_world 400000)\<lparr>pendingSearch := Some \<lparr>query = ''Dune'', timestamp = 100000\<rparr>\<rparr>)
   \<and> handleGetPendingSearch
        ((startup_world 100001)\<lparr>pendingSearch := Some \<lparr>query = ''Dune'', timestamp = 100000\<rparr>\<rparr>)
     = (JObj [(''success'', JBool True), (''query'', JStr ''Dune'')],
        (startup_world 100001)\<lparr>pendingSearch := Some \<lparr>query = ''Dune'', timestamp = 100000\<rparr>\<rparr>)"
proof -
  have t: "trim '' Dune '' = ''Dune''" by (simp add: trim_def js_whitespace_def)
  from pending_search_read_if_fresh
    [of "startup_world 1000" "\<lparr>query = ''Dune'', timestamp = 100000\<rparr>"
        "\<lparr>menuItemId = ''moctale-search-selection'', selectionText = Some '' Dune ''\<rparr>"
        "'' Dune ''" 200000]
    pending_search_read_if_fresh
    [of "(startup_world 400000)\<lparr>pendingSearch := Some \<lparr>query = ''Dune'', timestamp = 100000\<rparr>\<rparr>"
        "\<lparr>query = ''Dune'', timestamp = 100000\<rparr>"]
    pending_search_read_if_fresh
    [of "(startup_world 100001)\<lparr>pendingSearch := Some \<lparr>query = ''Dune'', timestamp = 100000\<rparr>\<rparr>"
        "\<lparr>query = ''Dune'', timestamp = 100000\<rparr>"]
  show ?thesis by (simp add: t CONTEXT_MENU_ID_def startup_world_def)
qed

text \<open>
  Claim C10. When the click is on the extension's menu item and the selection, trimmed, is not
  empty, the listener stores the trimmed selection with the clock's reading at the write and
  opens one popup window. When the selection is missing, empty or white space only, the state
  is unchanged: no record is written and no window is opened.
\<close>

theorem context_menu_writes_trimmed_selection:
  "(menuItemId info = CONTEXT_MENU_ID \<and> selectionText info = Some s \<and> trim s \<noteq> []
      \<longrightarrow> contextMenus_onClicked info w
            = w\<lparr>pendingSearch := Some \<lparr>query = trim s, timestamp = clock w\<rparr>,
                 windows := windows w @ [''popup/popup.html'']\<rparr>)
   \<and> (selectionText info = None \<or> (selectionText info = Some s \<and> trim s = [])
      \<longrightarrow> contextMenus_onClicked info w = w)"
  using trim_nonempty [of s]
  by (auto simp add: contextMenus_onClicked_def Let_def)

theorem context_menu_writes_trimmed_selection_witness:
  "contextMenus_onClicked \<lparr>menuItemId = ''moctale-search-selection'', selectionText = Some '' Dune ''\<rparr>
      (startup_world 1000)
     = (startup_world 1000)\<lparr>pendingSearch := Some \<lparr>query = ''Dune'', timestamp = 1000\<rparr>,
                             windows := [''popup/popup.html'']\<rparr>
   \<and> contextMenus_onClicked \<lparr>menuItemId = ''moctale-search-selection'', selectionText = Some ''   ''\<rparr>
      (startup_world 1000) = startup_world 1000"
proof -
  have t: "trim '' Dune '' = ''Dune''" "trim ''   '' = []" by (simp_all add: trim_def js_whitespace_def)
  from context_menu_writes_trimmed_selection
    [of "\<lparr>menuItemId = ''moctale-search-selection'', selectionText = Some '' Dune ''\<rparr>" "'' Dune ''" "startup_world 1000"]
   context_menu_writes_trimmed_selection
    [of "\<lparr>menuItemId = ''moctale-search-selection'', selectionText = Some ''   ''\<rparr>" "''   ''" "startup_world 1000"]
  show ?thesis by (simp add: t CONTEXT_MENU_ID_def startup_world_def)
qed

section \<open>Properties of the agent\<close>

lemma string_of_int_1: "string_of_int 1 = ''1''"
  by code_simp

lemma normalize_dune:
  "normalizeMovieData (JObj [(''slug'', JStr ''dune-2021''), (''name'', JStr ''Dune''),
                             (''year'', JNum 2021), (''is_show'', JBool False),
                             (''image'', JStr ''x.jpg'')]) = Some dune_item"
  by (simp add: normalizeMovieData_def js_get_def js_or_def dune_item_def)

lemma search_success_dune:
  "search_success ep dune_upstream =
     Some (JObj [(''success'', JBool True), (''method'', JStr ''api''), (''endpoint'', JStr ep),
                 (''results'', JArr [dune_item]),
                 (''pagination'', JObj [(''totalPages'', JNum 3), (''currentPage'', JNum 1),
                                        (''nextPage'', JUndefined), (''previousPage'', JUndefined),
                                        (''count'', JNum 1)])])"
  by (simp add: search_success_def dune_upstream_def js_get_def js_or_def array_map_def normalize_dune)

text \<open>
  Claim C7. The page answers the search request for the normalized query with a 2xx response
  whose body is the upstream shape of the claim, a tab on the target site runs the agent, and
  the lookup misses. Then \<open>handleSearchMovies\<close> returns the success envelope shown: one item,
  with \<^verbatim>\<open>id\<close> and \<^verbatim>\<open>slug\<close> \<^verbatim>\<open>"dune-2021"\<close>, \<^verbatim>\<open>type\<close> (the spec's kind) \<^verbatim>\<open>"movie"\<close>,
  \<^verbatim>\<open>url\<close> (the spec's detail path) \<^verbatim>\<open>"/content/dune-2021"\<close>, and \<^verbatim>\<open>pagination.totalPages\<close> 3.
  For every item that \<open>normalizeMovieData\<close> accepts, \<^verbatim>\<open>id\<close> and \<^verbatim>\<open>slug\<close> are the upstream
  \<^verbatim>\<open>slug\<close> and \<^verbatim>\<open>url\<close> is \<^verbatim>\<open>/content/\<close> followed by it.
\<close>

theorem search_envelope_for_dune:
  assumes up: "fetch pg (''/api/search?q='' @ encodeURIComponent (toLowerCase (trim s)) @ ''&page=1'')
                 = Response status (Inr dune_upstream)"
    and ok: "response_ok status"
    and ne: "trim s \<noteq> []"
    and tb: "findMoctaleTab (agent_browser pg ts ms) = Some tb"
    and miss: "fst (CacheManager_get (clock w) ''searchResults'' [JStr (toLowerCase (trim s))] (cache w)) = JNull"
  shows "fst (handleSearchMovies (agent_browser pg ts ms) (JStr s) w) =
     Inr (JObj [(''success'', JBool True), (''method'', JStr ''api''),
                (''endpoint'', JStr (''/api/search?q='' @ encodeURIComponent (toLowerCase (trim s)) @ ''&page=1'')),
                (''results'', JArr [JObj
                   [(''id'', JStr ''dune-2021''), (''title'', JStr ''Dune''), (''year'', JNum 2021),
                    (''rating'', JNull), (''ratingCount'', JNum 0), (''poster'', JStr ''x.jpg''),
                    (''banner'', JUndefined), (''summary'', JNull), (''type'', JStr ''movie''),
                    (''slug'', JStr ''dune-2021''), (''url'', JStr ''/content/dune-2021'')]]),
                (''pagination'', JObj [(''totalPages'', JNum 3), (''currentPage'', JNum 1),
                                       (''nextPage'', JUndefined), (''previousPage'', JUndefined),
                                       (''count'', JNum 1)])])
   \<and> (\<forall>item n. normalizeMovieData item = Some n \<longrightarrow>
          js_prop n ''id'' = js_prop item ''slug'' \<and> js_prop n ''slug'' = js_prop item ''slug''
        \<and> js_prop n ''url'' = Some (JStr (''/content/'' @ js_to_string (js_prop_opt item ''slug''))))"
proof (intro conjI allI impI)
  let ?ep = "''/api/search?q='' @ encodeURIComponent (toLowerCase (trim s)) @ ''&page=1''"
  let ?m = "[(''type'', JStr ''SEARCH''), (''query'', JStr (toLowerCase (trim s)))]"
  let ?env = "JObj [(''success'', JBool True), (''method'', JStr ''api''), (''endpoint'', JStr ?ep),
                 (''results'', JArr [dune_item]),
                 (''pagination'', JObj [(''totalPages'', JNum 3), (''currentPage'', JNum 1),
                                        (''nextPage'', JUndefined), (''previousPage'', JUndefined),
                                        (''count'', JNum 1)])]"
  have st: "search_try pg ?ep = or_throw (search_success ?ep dune_upstream)"
    using up ok by (simp add: search_try_def)
  have ag: "contentScript_onMessage pg ?m = ?env"
    using st
    by (simp add: contentScript_onMessage_def search_def searchViaAPI_def js_get_def js_or_def
        string_of_int_1 search_success_dune or_throw_def Let_def)
  obtain c where g: "CacheManager_get (clock w) ''searchResults'' [JStr (toLowerCase (trim s))] (cache w) = (JNull, c)"
    using miss by (cases "CacheManager_get (clock w) ''searchResults'' [JStr (toLowerCase (trim s))] (cache w)") simp
  from ne have "s \<noteq> []" by (rule trim_nonempty)
  then have "fst (handleSearchMovies (agent_browser pg ts ms) (JStr s) w) = Inr ?env"
    using ne g
    by (simp add: handleSearchMovies_def Let_def agent_send [OF tb] ag cache_response_def js_get_def)
  then show "fst (handleSearchMovies (agent_browser pg ts ms) (JStr s) w) =
     Inr (JObj [(''success'', JBool True), (''method'', JStr ''api''),
                (''endpoint'', JStr ?ep),
                (''results'', JArr [JObj
                   [(''id'', JStr ''dune-2021''), (''title'', JStr ''Dune''), (''year'', JNum 2021),
                    (''rating'', JNull), (''ratingCount'', JNum 0), (''poster'', JStr ''x.jpg''),
                    (''banner'', JUndefined), (''summary'', JNull), (''type'', JStr ''movie''),
                    (''slug'', JStr ''dune-2021''), (''url'', JStr ''/content/dune-2021'')]]),
                (''pagination'', JObj [(''totalPages'', JNum 3), (''currentPage'', JNum 1),
                                       (''nextPage'', JUndefined), (''previousPage'', JUndefined),
                                       (''count'', JNum 1)])])"
    by (simp add: dune_item_def)
next
  fix item n
  assume a: "normalizeMovieData item = Some n"
  then show "js_prop n ''id'' = js_prop item ''slug''"
    by (cases item) (auto simp add: normalizeMovieData_def js_get_def)
  from a show "js_prop n ''slug'' = js_prop item ''slug''"
    by (cases item) (auto simp add: normalizeMovieData_def js_get_def)
  from a show "js_prop n ''url'' = Some (JStr (''/content/'' @ js_to_string (js_prop_opt item ''slug'')))"
    by (cases item) (auto simp add: normalizeMovieData_def js_get_def js_prop_opt_def)
qed

theorem search_envelope_for_dune_witness:
  "fst (handleSearchMovies (agent_browser dune_page moctale_tabs 40) (JStr ''Dune'') (startup_world 1000)) =
     Inr (JObj [(''success'', JBool True), (''method'', JStr ''api''),
                (''endpoint'', JStr ''/api/search?q=dune&page=1''),
                (''results'', JArr [JObj
                   [(''id'', JStr ''dune-2021''), (''title'', JStr ''Dune''), (''year'', JNum 2021),
                    (''rating'', JNull), (''ratingCount'', JNum 0), (''poster'', JStr ''x.jpg''),
                    (''banner'', JUndefined), (''summary'', JNull), (''type'', JStr ''movie''),
                    (''slug'', JStr ''dune-2021''), (''url'', JStr ''/content/dune-2021'')]]),
                (''pagination'', JObj [(''totalPages'', JNum 3), (''currentPage'', JNum 1),
                                       (''nextPage'', JUndefined), (''previousPage'', JUndefined),
                                       (''count'', JNum 1)])])"
proof -
  have t: "trim ''Dune'' = ''Dune''" by (simp add: trim_def js_whitespace_def)
  have l: "toLowerCase ''Dune'' = ''dune''" by code_simp
  have e: "encodeURIComponent ''dune'' = ''dune''" by code_simp
  have up: "fetch dune_page (''/api/search?q='' @ encodeURIComponent (toLowerCase (trim ''Dune'')) @ ''&page=1'')
                 = Response 200 (Inr dune_upstream)"
    by (simp add: t l e dune_page_def)
  have ok: "response_ok 200" by (simp add: response_ok_def)
  have ne: "trim ''Dune'' \<noteq> []" by (simp add: t)
  have miss: "fst (CacheManager_get (clock (startup_world 1000)) ''searchResults''
                 [JStr (toLowerCase (trim ''Dune''))] (cache (startup_world 1000))) = JNull"
    by (simp add: CacheManager_get_def startup_world_def)
  from search_envelope_for_dune [OF up ok ne find_moctale_tabs miss]
  show ?thesis by (simp add: t l e)
qed

subsection \<open>Authentication detection never fails\<close>

lemma cookie_loop_cases:
  "cookie_loop cks = JNull \<or>
   cookie_loop cks = JObj [(''isLoggedIn'', JBool True), (''username'', JNull),
                            (''method'', JStr ''cookie''), (''indicator'', JStr ''auth_token'')]"
  by (induction cks) (auto split: prod.splits)

lemma dom_loop_cases:
  "dom_loop pg sels = Some v \<Longrightarrow>
   \<exists>u k. v = JObj [(''isLoggedIn'', JBool True), (''username'', u), (''method'', JStr ''dom''), (''indicator'', k)]"
  by (induction pg sels rule: dom_loop.induct) (auto split: option.splits)

lemma from_cookie_success:
  "js_get ((''success'', JBool True) # js_spread (checkAuthFromCookie pg)) ''success'' = JBool True"
  using cookie_loop_cases [of "split_char CHR '';'' (cookie pg)"]
  by (auto simp add: checkAuthFromCookie_def js_get_def)

lemma from_dom_success:
  "js_get ((''success'', JBool True) # js_spread (checkAuthFromDOM pg)) ''success'' = JBool True"
proof (cases "dom_loop pg authSelectors")
  case None
  then show ?thesis by (simp add: checkAuthFromDOM_def js_get_def)
next
  case (Some v)
  from dom_loop_cases [OF this] Some show ?thesis
    by (auto simp add: checkAuthFromDOM_def js_get_def)
qed

lemma from_api_success:
  "js_get ((''success'', JBool True) # js_spread (checkAuthFromAPI pg)) ''success'' = JBool True"
  by (auto simp add: checkAuthFromAPI_def js_get_def split: fetch_outcome.splits sum.splits option.splits)

lemma checkAuth_success: "js_prop (checkAuth pg) ''success'' = Some (JBool True)"
  by (simp add: checkAuth_def Let_def from_cookie_success from_dom_success from_api_success)
    (simp add: js_get_def)

text \<open>
  Claim C9. The agent's reply to \<^verbatim>\<open>CHECK_AUTH\<close> has \<^verbatim>\<open>success\<close> \<^verbatim>\<open>true\<close> on every page;
  when the cookie, the DOM and the API probe all find nothing, it reports \<^verbatim>\<open>isLoggedIn\<close>
  \<^verbatim>\<open>false\<close>. So with the agent in a target tab and a cache miss, \<open>handleCheckSession\<close>
  returns the reply, logged in or not, and caches it under the session key until 60 seconds
  after the reply arrived.
\<close>

theorem check_auth_always_succeeds_and_is_cached:
  "js_prop (contentScript_onMessage pg [(''type'', JStr ''CHECK_AUTH'')]) ''success'' = Some (JBool True)
   \<and> (checkAuthFromCookie pg = JNull \<and> checkAuthFromDOM pg = JNull \<and> checkAuthFromAPI pg = JNull
        \<longrightarrow> js_prop (checkAuth pg) ''isLoggedIn'' = Some (JBool False))
   \<and> (findMoctaleTab (agent_browser pg ts ms) = Some tb
        \<and> fst (CacheManager_get (clock w) ''sessionState'' [JStr ''status''] (cache w)) = JNull
        \<longrightarrow> fst (handleCheckSession (agent_browser pg ts ms) w) = Inr (checkAuth pg)
          \<and> cache (snd (handleCheckSession (agent_browser pg ts ms) w)) (generateKey ''sessionState'' [JStr ''status''])
              = Some \<lparr>data = checkAuth pg, expiresAt = At (clock w + int ms + 60 * 1000)\<rparr>)"
proof (intro conjI impI)
  have cs: "contentScript_onMessage pg [(''type'', JStr ''CHECK_AUTH'')] = checkAuth pg"
    by (simp add: contentScript_onMessage_def js_get_def)
  show "js_prop (contentScript_onMessage pg [(''type'', JStr ''CHECK_AUTH'')]) ''success'' = Some (JBool True)"
    by (simp only: cs checkAuth_success)
  {
    assume "checkAuthFromCookie pg = JNull \<and> checkAuthFromDOM pg = JNull \<and> checkAuthFromAPI pg = JNull"
    then show "js_prop (checkAuth pg) ''isLoggedIn'' = Some (JBool False)"
      by (simp add: checkAuth_def js_get_def)
  }
  assume h: "findMoctaleTab (agent_browser pg ts ms) = Some tb
        \<and> fst (CacheManager_get (clock w) ''sessionState'' [JStr ''status''] (cache w)) = JNull"
  then obtain c where g: "CacheManager_get (clock w) ''sessionState'' [JStr ''status''] (cache w) = (JNull, c)"
    by (cases "CacheManager_get (clock w) ''sessionState'' [JStr ''status''] (cache w)") simp
  from h have tb: "findMoctaleTab (agent_browser pg ts ms) = Some tb" by simp
  let ?w' = "w\<lparr>cache := c, sent := sent w @ [(tab_id tb, JObj [(''type'', JStr ''PING'')]),
                 (tab_id tb, JObj [(''type'', JStr ''CHECK_AUTH'')])], clock := clock w + int ms\<rparr>"
  have sd: "sendToContentScript (agent_browser pg ts ms) (JObj [(''type'', JStr ''CHECK_AUTH'')]) (w\<lparr>cache := c\<rparr>)
      = (checkAuth pg, ?w')"
    by (simp add: agent_send [OF tb] cs)
  have t: "js_truthy (JBool True)" by simp
  note r = checkSession_miss_success [OF g sd checkAuth_success t]
  show "fst (handleCheckSession (agent_browser pg ts ms) w) = Inr (checkAuth pg)"
    by (simp add: r)
  show "cache (snd (handleCheckSession (agent_browser pg ts ms) w)) (generateKey ''sessionState'' [JStr ''status''])
              = Some \<lparr>data = checkAuth pg, expiresAt = At (clock w + int ms + 60 * 1000)\<rparr>"
    by (simp add: r)
qed

lemma logged_out_checkAuth:
  "checkAuthFromCookie logged_out_page = JNull \<and> checkAuthFromDOM logged_out_page = JNull
   \<and> checkAuthFromAPI logged_out_page = JNull"
  by (simp add: checkAuthFromCookie_def checkAuthFromDOM_def checkAuthFromAPI_def logged_out_page_def
      cookie_pair_def trim_def js_whitespace_def authSelectors_def)

text \<open>
  On the logged-out page the reply is the logged-out envelope, and the coordinator, asked at
  1000 with 40 ms of round trip, caches it until 61040.
\<close>

theorem check_auth_always_succeeds_and_is_cached_witness:
  "js_prop (checkAuth logged_out_page) ''isLoggedIn'' = Some (JBool False)
   \<and> js_prop (checkAuth logged_out_page) ''success'' = Some (JBool True)
   \<and> fst (handleCheckSession (agent_browser logged_out_page moctale_tabs 40) (startup_world 1000))
       = Inr (checkAuth logged_out_page)
   \<and> cache (snd (handleCheckSession (agent_browser logged_out_page moctale_tabs 40) (startup_world 1000)))
        ''sessionState:status''
       = Some \<lparr>data = checkAuth logged_out_page, expiresAt = At 61040\<rparr>"
proof -
  have m: "fst (CacheManager_get (clock (startup_world 1000)) ''sessionState'' [JStr ''status'']
                  (cache (startup_world 1000))) = JNull"
    by (simp add: CacheManager_get_def startup_world_def)
  have k: "generateKey ''sessionState'' [JStr ''status''] = ''sessionState:status''"
    by (simp add: generateKey_def array_join_def)
  have cs: "contentScript_onMessage logged_out_page [(''type'', JStr ''CHECK_AUTH'')] = checkAuth logged_out_page"
    by (simp add: contentScript_onMessage_def js_get_def)
  from check_auth_always_succeeds_and_is_cached
    [of logged_out_page moctale_tabs 40 "\<lparr>tab_id = 7, tab_url = Some ''https://www.moctale.in/explore''\<rparr>"
        "startup_world 1000"]
  show ?thesis
    by (simp add: logged_out_checkAuth find_moctale_tabs m k cs) (simp add: startup_world_def)
qed

end
